theory Spec2Isabelle
  imports Complex_Main "HOL-Library.Word"
begin

section \<open>Values, errors and asynchronous effects\<close>

text \<open>
  A \<^verbatim>\<open>Uint8Array\<close> is a list of bytes. A JavaScript string is a list of UTF-16 code
  units, so \<^term>\<open>length\<close> is the source's \<^verbatim>\<open>.length\<close>, and a string may hold a
  surrogate with no partner. \<open>str\<close> turns a text of this theory into the JavaScript
  string of the same characters; it is used for the literals of the source.
\<close>

type_synonym bytes = "8 word list"

type_synonym code_unit = "16 word"

type_synonym jsstring = "code_unit list"

definition code_unit_of :: "char \<Rightarrow> code_unit" where
  "code_unit_of c = of_nat (of_char c)"

definition str :: "string \<Rightarrow> jsstring" where
  "str s = map code_unit_of s"

text \<open>
  A string is well formed when it has no lone surrogate: every code unit in
  \<^verbatim>\<open>D800..DBFF\<close> is followed by one in \<^verbatim>\<open>DC00..DFFF\<close>, and none of the latter stands
  elsewhere. These are the strings that \<^verbatim>\<open>encodeURIComponent\<close> accepts; on the others
  it throws a \<^verbatim>\<open>URIError\<close>.
\<close>

definition is_high_surrogate :: "code_unit \<Rightarrow> bool" where
  "is_high_surrogate c \<longleftrightarrow> 0xD800 \<le> c \<and> c \<le> 0xDBFF"

definition is_low_surrogate :: "code_unit \<Rightarrow> bool" where
  "is_low_surrogate c \<longleftrightarrow> 0xDC00 \<le> c \<and> c \<le> 0xDFFF"

fun well_formed :: "jsstring \<Rightarrow> bool" where
  "well_formed [] = True"
| "well_formed [c] = (\<not> is_high_surrogate c \<and> \<not> is_low_surrogate c)"
| "well_formed (c # d # cs) =
     (if is_high_surrogate c then is_low_surrogate d \<and> well_formed cs
      else \<not> is_low_surrogate c \<and> well_formed (d # cs))"

text \<open>
  \<^verbatim>\<open>throw new Error(msg)\<close> is \<open>Error msg\<close>; a \<^verbatim>\<open>TypeError\<close> of the runtime
  (reading a property of \<^verbatim>\<open>null\<close>) is \<open>TypeError msg\<close>, and the \<^verbatim>\<open>URIError\<close> of
  \<^verbatim>\<open>encodeURIComponent\<close> is \<open>URIError msg\<close>. The message of an error is kept as a text.
\<close>

datatype error = Error string | TypeError string | URIError string

text \<open>
  A value at run time, as \<^verbatim>\<open>JSON.parse\<close> returns it and as a property read yields it.
  \<open>JUndefined\<close> is the result of reading a property an object does not have.
\<close>

datatype jsvalue =
    JUndefined
  | JNull
  | JBool bool
  | JNumber rat
  | JString jsstring
  | JArray "jsvalue list"
  | JObject "(jsstring \<times> jsvalue) list"

text \<open>JavaScript truthiness, as \<^verbatim>\<open>if (v)\<close>, \<^verbatim>\<open>!v\<close> and \<^verbatim>\<open>a && b\<close> test it.\<close>

fun truthy :: "jsvalue \<Rightarrow> bool" where
  "truthy JUndefined = False"
| "truthy JNull = False"
| "truthy (JBool b) = b"
| "truthy (JNumber n) = (n \<noteq> 0)"
| "truthy (JString s) = (s \<noteq> [])"
| "truthy (JArray _) = True"
| "truthy (JObject _) = True"

text \<open>
  Truthiness of a value of type \<^verbatim>\<open>string | null\<close>: \<^verbatim>\<open>null\<close> and the empty string
  are falsy.
\<close>

fun truthy_string :: "jsstring option \<Rightarrow> bool" where
  "truthy_string None = False"
| "truthy_string (Some s) = (s \<noteq> [])"

text \<open>
  The property read \<^verbatim>\<open>v.k\<close> for a key that no prototype defines (the source reads
  \<^verbatim>\<open>s\<close> and \<^verbatim>\<open>r\<close>): a \<^verbatim>\<open>TypeError\<close> on \<^verbatim>\<open>null\<close> and \<^verbatim>\<open>undefined\<close>, the own
  property of an object, \<^verbatim>\<open>undefined\<close> otherwise.
\<close>

fun js_get :: "jsvalue \<Rightarrow> jsstring \<Rightarrow> error + jsvalue" where
  "js_get JUndefined k = Inl (TypeError ''Cannot read properties of undefined'')"
| "js_get JNull k = Inl (TypeError ''Cannot read properties of null'')"
| "js_get (JObject kvs) k = (case map_of kvs k of None \<Rightarrow> Inr JUndefined | Some v \<Rightarrow> Inr v)"
| "js_get _ k = Inr JUndefined"

text \<open>
  A synchronous computation that may throw is a value of \<open>error + 'a\<close>.
  \<open>and_then\<close> sequences two of them; \<open>catch_null\<close> is
  \<^verbatim>\<open>try { return ... } catch { return null }\<close>.
\<close>

definition and_then :: "error + 'a \<Rightarrow> ('a \<Rightarrow> error + 'b) \<Rightarrow> error + 'b" where
  "and_then r f = (case r of Inl e \<Rightarrow> Inl e | Inr x \<Rightarrow> f x)"

definition catch_null :: "error + 'a option \<Rightarrow> 'a option" where
  "catch_null r = (case r of Inl e \<Rightarrow> None | Inr v \<Rightarrow> v)"

text \<open>
  A computation with effects (an \<^verbatim>\<open>async\<close> method, or a synchronous call on a
  stateful collaborator) takes the state and returns its outcome with the new state.
  A rejection keeps the effects made before it. Calls are sequential: each \<^verbatim>\<open>await\<close>
  runs its promise to completion before the next statement.
\<close>

type_synonym ('s, 'a) promise = "'s \<Rightarrow> (error + 'a) \<times> 's"

definition resolve :: "'a \<Rightarrow> ('s, 'a) promise" where
  "resolve x = (\<lambda>s. (Inr x, s))"

definition reject :: "error \<Rightarrow> ('s, 'a) promise" where
  "reject e = (\<lambda>s. (Inl e, s))"

definition settle :: "error + 'a \<Rightarrow> ('s, 'a) promise" where
  "settle r = (\<lambda>s. (r, s))"

definition await :: "('s, 'a) promise \<Rightarrow> ('a \<Rightarrow> ('s, 'b) promise) \<Rightarrow> ('s, 'b) promise" where
  "await m f = (\<lambda>s. case m s of (Inl e, s') \<Rightarrow> (Inl e, s') | (Inr x, s') \<Rightarrow> f x s')"

definition try_catch :: "('s, 'a) promise \<Rightarrow> (error \<Rightarrow> ('s, 'a) promise) \<Rightarrow> ('s, 'a) promise" where
  "try_catch m h = (\<lambda>s. case m s of (Inl e, s') \<Rightarrow> h e s' | (Inr x, s') \<Rightarrow> (Inr x, s'))"

section \<open>The runtime and the imported libraries\<close>

record KeyPair =
  publicKey :: bytes
  secretKey :: bytes

text \<open>
  \<^verbatim>\<open>encryption/e2e.ts\<close> imports \<^verbatim>\<open>tweetnacl\<close> and \<^verbatim>\<open>tweetnacl-util\<close> and uses the
  runtime's \<^verbatim>\<open>crypto.subtle\<close>, \<^verbatim>\<open>TextEncoder\<close> and \<^verbatim>\<open>JSON\<close>. None of them is part
  of the repository, so they are parameters of the model: a record of functions, over a
  state \<open>'e\<close> for the entropy source. A function that can throw returns \<open>error + _\<close>;
  \<^verbatim>\<open>nacl.box.open\<close> and \<^verbatim>\<open>nacl.secretbox.open\<close> return \<^verbatim>\<open>null\<close> (\<open>None\<close>) when
  authentication fails. \<open>PBKDF2_SHA256 password salt iterations bits\<close> stands for
  \<^verbatim>\<open>importKey('raw', password, 'PBKDF2', ...)\<close> followed by \<^verbatim>\<open>deriveBits\<close> with
  \<^verbatim>\<open>hash: 'SHA-256'\<close>. \<open>decodeBase64\<close> takes a run-time value, since a parsed
  envelope may carry any value in its fields.
\<close>

record 'e platform =
  randomBytes :: "nat \<Rightarrow> ('e, bytes) promise"
  box_keyPair :: "('e, KeyPair) promise"
  box_keyPair_fromSecretKey :: "bytes \<Rightarrow> error + KeyPair"
  box :: "bytes \<Rightarrow> bytes \<Rightarrow> bytes \<Rightarrow> bytes \<Rightarrow> error + bytes option"
  box_open :: "bytes \<Rightarrow> bytes \<Rightarrow> bytes \<Rightarrow> bytes \<Rightarrow> error + bytes option"
  secretbox :: "bytes \<Rightarrow> bytes \<Rightarrow> bytes \<Rightarrow> error + bytes option"
  secretbox_open :: "bytes \<Rightarrow> bytes \<Rightarrow> bytes \<Rightarrow> error + bytes option"
  encodeBase64 :: "bytes \<Rightarrow> jsstring"
  decodeBase64 :: "jsvalue \<Rightarrow> error + bytes"
  encodeUTF8 :: "bytes \<Rightarrow> error + jsstring"
  decodeUTF8 :: "jsstring \<Rightarrow> error + bytes"
  TextEncoder_encode :: "jsstring \<Rightarrow> bytes"
  PBKDF2_SHA256 :: "bytes \<Rightarrow> bytes \<Rightarrow> nat \<Rightarrow> nat \<Rightarrow> error + bytes"
  JSON_parse :: "jsstring \<Rightarrow> error + jsvalue"
  JSON_stringify :: "jsvalue \<Rightarrow> jsstring"

text \<open>\<^verbatim>\<open>nacl.box.nonceLength\<close> and \<^verbatim>\<open>nacl.secretbox.nonceLength\<close>.\<close>

definition box_nonceLength :: nat where
  "box_nonceLength = 24"

definition secretbox_nonceLength :: nat where
  "secretbox_nonceLength = 24"

section \<open>encryption/e2e.ts\<close>

subsection \<open>The interface \<^verbatim>\<open>E2EEncryption\<close>\<close>

record 's E2EEncryption =
  generateKeyPair :: "('s, KeyPair) promise"
  encryptMessage :: "jsstring \<Rightarrow> bytes \<Rightarrow> bytes \<Rightarrow> ('s, jsstring) promise"
  decryptMessage :: "jsvalue \<Rightarrow> bytes \<Rightarrow> bytes \<Rightarrow> ('s, jsstring option) promise"
  encryptPrivateKeyWithPin :: "bytes \<Rightarrow> jsstring \<Rightarrow> ('s, jsstring) promise"
  decryptPrivateKeyWithPin :: "jsstring \<Rightarrow> jsstring \<Rightarrow> ('s, bytes option) promise"

subsection \<open>The class \<^verbatim>\<open>TweetNaClEncryption\<close>\<close>

definition TweetNaCl_generateKeyPair :: "'e platform \<Rightarrow> ('e, KeyPair) promise" where
  "TweetNaCl_generateKeyPair L = box_keyPair L"

definition TweetNaCl_encryptMessage ::
  "'e platform \<Rightarrow> jsstring \<Rightarrow> bytes \<Rightarrow> bytes \<Rightarrow> ('e, jsstring) promise" where
  "TweetNaCl_encryptMessage L plaintext recipientPublicKey senderSecretKey =
     await (randomBytes L box_nonceLength) (\<lambda>nonce.
     await (settle (decodeUTF8 L plaintext)) (\<lambda>messageUint8.
     await (settle (box L messageUint8 nonce recipientPublicKey senderSecretKey)) (\<lambda>encrypted.
       case encrypted of
         None \<Rightarrow> reject (Error ''Encryption failed'')
       | Some ciphertext \<Rightarrow> resolve (encodeBase64 L (nonce @ ciphertext)))))"

definition TweetNaCl_decryptMessage ::
  "'e platform \<Rightarrow> jsvalue \<Rightarrow> bytes \<Rightarrow> bytes \<Rightarrow> jsstring option" where
  "TweetNaCl_decryptMessage L ciphertextBase64 senderPublicKey recipientSecretKey =
     catch_null (
       and_then (decodeBase64 L ciphertextBase64) (\<lambda>fullMessage.
         let nonce = take box_nonceLength fullMessage;
             ciphertext = drop box_nonceLength fullMessage
         in and_then (box_open L ciphertext nonce senderPublicKey recipientSecretKey) (\<lambda>decrypted.
              case decrypted of
                None \<Rightarrow> Inr None
              | Some d \<Rightarrow> and_then (encodeUTF8 L d) (\<lambda>text. Inr (Some text)))))"

definition deriveKeyFromPin :: "'e platform \<Rightarrow> jsstring \<Rightarrow> bytes \<Rightarrow> error + bytes" where
  "deriveKeyFromPin L pin salt =
     (let pinData = TextEncoder_encode L pin
      in PBKDF2_SHA256 L pinData salt 100000 256)"

definition TweetNaCl_encryptPrivateKeyWithPin ::
  "'e platform \<Rightarrow> bytes \<Rightarrow> jsstring \<Rightarrow> ('e, jsstring) promise" where
  "TweetNaCl_encryptPrivateKeyWithPin L secretKey' pin =
     await (randomBytes L 16) (\<lambda>salt.
     await (settle (deriveKeyFromPin L pin salt)) (\<lambda>derivedKey.
     await (randomBytes L secretbox_nonceLength) (\<lambda>nonce.
     await (settle (secretbox L secretKey' nonce derivedKey)) (\<lambda>encrypted.
       case encrypted of
         None \<Rightarrow> reject (Error ''Failed to encrypt private key'')
       | Some ciphertext \<Rightarrow> resolve (encodeBase64 L (salt @ nonce @ ciphertext))))))"

definition TweetNaCl_decryptPrivateKeyWithPin ::
  "'e platform \<Rightarrow> jsstring \<Rightarrow> jsstring \<Rightarrow> bytes option" where
  "TweetNaCl_decryptPrivateKeyWithPin L encryptedBase64 pin =
     catch_null (
       and_then (decodeBase64 L (JString encryptedBase64)) (\<lambda>combined.
         let salt = take 16 combined;
             nonce = take secretbox_nonceLength (drop 16 combined);
             encrypted = drop (16 + secretbox_nonceLength) combined
         in and_then (deriveKeyFromPin L pin salt) (\<lambda>derivedKey.
              secretbox_open L encrypted nonce derivedKey)))"

definition TweetNaClEncryption :: "'e platform \<Rightarrow> 'e E2EEncryption" where
  "TweetNaClEncryption L =
     \<lparr> generateKeyPair = TweetNaCl_generateKeyPair L,
       encryptMessage = TweetNaCl_encryptMessage L,
       decryptMessage = (\<lambda>c pk sk. resolve (TweetNaCl_decryptMessage L c pk sk)),
       encryptPrivateKeyWithPin = TweetNaCl_encryptPrivateKeyWithPin L,
       decryptPrivateKeyWithPin = (\<lambda>b pin. resolve (TweetNaCl_decryptPrivateKeyWithPin L b pin)) \<rparr>"

subsection \<open>Utility functions\<close>

definition bytesToBase64 :: "'e platform \<Rightarrow> bytes \<Rightarrow> jsstring" where
  "bytesToBase64 L bs = encodeBase64 L bs"

definition base64ToBytes :: "'e platform \<Rightarrow> jsstring \<Rightarrow> error + bytes" where
  "base64ToBytes L base64 = decodeBase64 L (JString base64)"

definition publicKeyFromPrivate :: "'e platform \<Rightarrow> bytes \<Rightarrow> error + bytes" where
  "publicKeyFromPrivate L privateKey =
     and_then (box_keyPair_fromSecretKey L privateKey) (\<lambda>kp. Inr (publicKey kp))"

text \<open>
  \<^verbatim>\<open>EncryptedContent\<close> as \<^verbatim>\<open>createEncryptedContent\<close> builds it. The fields \<^verbatim>\<open>s\<close>,
  \<^verbatim>\<open>r\<close> and \<^verbatim>\<open>recipientId\<close> carry the prefix \<open>enc_\<close>. \<open>EncryptedContent_json\<close> is the
  object as \<^verbatim>\<open>JSON.stringify\<close> receives it, its keys in the order of the literal.
\<close>

record EncryptedContent =
  enc_s :: jsstring
  enc_r :: jsstring
  enc_recipientId :: jsstring

definition EncryptedContent_json :: "EncryptedContent \<Rightarrow> jsvalue" where
  "EncryptedContent_json e =
     JObject [(str ''s'', JString (enc_s e)), (str ''r'', JString (enc_r e)),
              (str ''recipientId'', JString (enc_recipientId e))]"

definition createEncryptedContent ::
  "'s E2EEncryption \<Rightarrow> jsstring \<Rightarrow> bytes \<Rightarrow> bytes \<Rightarrow> bytes \<Rightarrow> jsstring
   \<Rightarrow> ('s, EncryptedContent) promise" where
  "createEncryptedContent encryption' plaintext senderSecretKey senderPublicKey
       recipientPublicKey recipientId =
     await (encryptMessage encryption' plaintext recipientPublicKey senderSecretKey) (\<lambda>forRecipient.
     await (encryptMessage encryption' plaintext senderPublicKey senderSecretKey) (\<lambda>forSender.
       resolve \<lparr> enc_s = forSender, enc_r = forRecipient, enc_recipientId = recipientId \<rparr>))"

text \<open>
  \<^verbatim>\<open>parseEncryptedContent\<close> returns the parsed value itself (the cast changes nothing at
  run time) when its \<^verbatim>\<open>s\<close> and \<^verbatim>\<open>r\<close> are truthy, and \<^verbatim>\<open>null\<close> otherwise, also when
  \<^verbatim>\<open>JSON.parse\<close> or a property read throws.
\<close>

definition parseEncryptedContent :: "'e platform \<Rightarrow> jsstring \<Rightarrow> jsvalue option" where
  "parseEncryptedContent L content' =
     catch_null (
       and_then (JSON_parse L content') (\<lambda>parsed.
       and_then (js_get parsed (str ''s'')) (\<lambda>s.
         if truthy s
         then and_then (js_get parsed (str ''r'')) (\<lambda>r.
                if truthy r then Inr (Some parsed) else Inr None)
         else Inr None)))"

definition decryptMessageContent ::
  "'e platform \<Rightarrow> 's E2EEncryption \<Rightarrow> jsstring \<Rightarrow> jsstring \<Rightarrow> jsstring \<Rightarrow> bytes \<Rightarrow> bytes
   \<Rightarrow> ('s, jsstring option) promise" where
  "decryptMessageContent L encryption' content' senderId' currentUserId' senderPublicKey
       currentUserSecretKey =
     (case parseEncryptedContent L content' of
        Some encrypted \<Rightarrow>
          let isSender = (senderId' = currentUserId')
          in await (settle (js_get encrypted (if isSender then str ''s'' else str ''r''))) (\<lambda>ciphertext.
               decryptMessage encryption' ciphertext senderPublicKey currentUserSecretKey)
      | None \<Rightarrow>
          decryptMessage encryption' (JString content') senderPublicKey currentUserSecretKey)"

definition createE2EEncryption :: "'e platform \<Rightarrow> 'e E2EEncryption" where
  "createE2EEncryption L = TweetNaClEncryption L"

section \<open>The PIN check\<close>

text \<open>
  The PIN check of \<^verbatim>\<open>setupEncryption\<close> and \<^verbatim>\<open>restoreEncryption\<close>:
  \<^verbatim>\<open>pin.length !== 6 || !/^\d+$/.test(pin)\<close>. Without the \<^verbatim>\<open>u\<close> flag \<^verbatim>\<open>\d\<close> is an
  ASCII digit, and without the \<^verbatim>\<open>m\<close> flag \<^verbatim>\<open>$\<close> is the end of the input.
\<close>

definition is_digit :: "code_unit \<Rightarrow> bool" where
  "is_digit c \<longleftrightarrow> c \<in> set (str ''0123456789'')"

definition digits_only :: "jsstring \<Rightarrow> bool" where
  "digits_only pin \<longleftrightarrow> pin \<noteq> [] \<and> list_all is_digit pin"

definition pin_rejected :: "jsstring \<Rightarrow> bool" where
  "pin_rejected pin \<longleftrightarrow> length pin \<noteq> 6 \<or> \<not> digits_only pin"

section \<open>What the model takes from the libraries\<close>

text \<open>
  The documented behaviour of the imported functions, one predicate per library
  feature; the theorems on the envelope codec and on the PIN backup state which of
  them they rest on. A key pair is one that \<^verbatim>\<open>nacl.box.keyPair.fromSecretKey\<close>
  reproduces from its secret key. Random bytes come in the length asked for; a box
  made for the public key of \<open>B\<close> with the secret key of \<open>A\<close> opens with the public key
  of \<open>A\<close> and the secret key of \<open>B\<close>; a secret box opens with the key that made it;
  base64 decodes what it encodes; PBKDF2 returns the 32 bytes asked for.
  \<^verbatim>\<open>decodeUTF8\<close> of \<^verbatim>\<open>tweetnacl-util\<close> is
  \<^verbatim>\<open>unescape(encodeURIComponent(s))\<close>: on a well-formed string it returns the bytes
  that \<^verbatim>\<open>encodeUTF8\<close> turns back into the string, and on a string with a lone
  surrogate it throws the \<^verbatim>\<open>URIError\<close>.
\<close>

definition is_keypair :: "'e platform \<Rightarrow> KeyPair \<Rightarrow> bool" where
  "is_keypair L kp \<longleftrightarrow> box_keyPair_fromSecretKey L (secretKey kp) = Inr kp"

definition randomBytes_contract :: "'e platform \<Rightarrow> bool" where
  "randomBytes_contract L \<longleftrightarrow>
     (\<forall>n e. \<exists>b e'. randomBytes L n e = (Inr b, e') \<and> length b = n)"

definition box_contract :: "'e platform \<Rightarrow> bool" where
  "box_contract L \<longleftrightarrow>
     (\<forall>m n A B. length n = box_nonceLength \<and> is_keypair L A \<and> is_keypair L B \<longrightarrow>
        (\<exists>c. box L m n (publicKey B) (secretKey A) = Inr (Some c)
            \<and> box_open L c n (publicKey A) (secretKey B) = Inr (Some m)))"

definition secretbox_contract :: "'e platform \<Rightarrow> bool" where
  "secretbox_contract L \<longleftrightarrow>
     (\<forall>m n k. length n = secretbox_nonceLength \<and> length k = 32 \<longrightarrow>
        (\<exists>c. secretbox L m n k = Inr (Some c) \<and> secretbox_open L c n k = Inr (Some m)))"

definition base64_contract :: "'e platform \<Rightarrow> bool" where
  "base64_contract L \<longleftrightarrow>
     (\<forall>b. decodeBase64 L (JString (encodeBase64 L b)) = Inr b) \<and> encodeBase64 L [] = []"

definition utf8_contract :: "'e platform \<Rightarrow> bool" where
  "utf8_contract L \<longleftrightarrow>
     (\<forall>s. well_formed s \<longrightarrow> (\<exists>b. decodeUTF8 L s = Inr b \<and> encodeUTF8 L b = Inr s))
     \<and> (\<forall>s. \<not> well_formed s \<longrightarrow> (\<exists>msg. decodeUTF8 L s = Inl (URIError msg)))"

definition pbkdf2_contract :: "'e platform \<Rightarrow> bool" where
  "pbkdf2_contract L \<longleftrightarrow>
     (\<forall>pin salt. \<not> pin_rejected pin \<and> length salt = 16 \<longrightarrow>
        (\<exists>k. PBKDF2_SHA256 L (TextEncoder_encode L pin) salt 100000 256 = Inr k \<and> length k = 32))"

text \<open>
  The serialised dual envelope parses back to the object that was serialised, and the
  base64 text of a byte array is never the JSON text of an object (the base64 alphabet
  has no brace).
\<close>

definition json_contract :: "'e platform \<Rightarrow> bool" where
  "json_contract L \<longleftrightarrow>
     (\<forall>e. JSON_parse L (JSON_stringify L (EncryptedContent_json e)) = Inr (EncryptedContent_json e))"

definition base64_not_json_object :: "'e platform \<Rightarrow> bool" where
  "base64_not_json_object L \<longleftrightarrow>
     (\<forall>b. case JSON_parse L (encodeBase64 L b) of Inr (JObject kvs) \<Rightarrow> False | _ \<Rightarrow> True)"

section \<open>types, adapters/adapter.ts and encryption/key-storage.ts\<close>

text \<open>
  The records carry the fields that the service reads or writes; field names are
  prefixed where two interfaces of the source share a name.
\<close>

record User =
  user_id :: jsstring

record Conversation =
  conv_id :: jsstring
  conv_participants :: "User list"

record Message =
  msg_id :: jsstring
  msg_conversationId :: jsstring
  msg_senderId :: jsstring
  msg_content :: jsstring
  msg_contentEncrypted :: "jsstring option"
  msg_replyTo :: "jsstring option"

record SendMessageOptions =
  content :: jsstring
  replyTo :: "jsstring option"

datatype EncryptionStatus =
    ready
  | needs_setup
  | needs_pin_setup
  | has_backup
  | needs_regeneration
  | status_error

text \<open>The result of \<^verbatim>\<open>getKeyBackup\<close>.\<close>

record KeyBackup =
  encryptedKey :: "jsstring option"
  rateLimited :: bool

text \<open>
  \<^verbatim>\<open>MessagingAdapter\<close>, over the state \<open>'a\<close> of the service behind it. The five key
  directory methods are optional in the source (\<^verbatim>\<open>getKeyBackup?\<close>); an absent method
  is \<open>None\<close>.
\<close>

record 'a MessagingAdapter =
  getConversation :: "jsstring \<Rightarrow> ('a, Conversation option) promise"
  sendMessage :: "jsstring \<Rightarrow> jsstring \<Rightarrow> SendMessageOptions \<Rightarrow> ('a, Message) promise"
  storePublicKey :: "(jsstring \<Rightarrow> jsstring \<Rightarrow> ('a, unit) promise) option"
  getPublicKey :: "(jsstring \<Rightarrow> ('a, jsstring option) promise) option"
  storeKeyBackup :: "(jsstring \<Rightarrow> jsstring \<Rightarrow> ('a, unit) promise) option"
  getKeyBackup :: "(jsstring \<Rightarrow> ('a, KeyBackup) promise) option"
  recordPinAttempt :: "(jsstring \<Rightarrow> bool \<Rightarrow> ('a, unit) promise) option"

record StoredKeyPair =
  stored_publicKey :: jsstring
  stored_secretKey :: jsstring

text \<open>\<^verbatim>\<open>KeyStorage\<close>, over the state \<open>'k\<close> of the store.\<close>

record 'k KeyStorage =
  storeKeyPair :: "jsstring \<Rightarrow> StoredKeyPair \<Rightarrow> ('k, unit) promise"
  loadKeyPair :: "jsstring \<Rightarrow> ('k, StoredKeyPair option) promise"
  deleteKeyPair :: "jsstring \<Rightarrow> ('k, unit) promise"

subsection \<open>\<^verbatim>\<open>MemoryKeyStorage\<close>\<close>

definition MemoryKeyStorage :: "(jsstring \<rightharpoonup> StoredKeyPair) KeyStorage" where
  "MemoryKeyStorage =
     \<lparr> storeKeyPair = (\<lambda>userId keys' ks. (Inr (), ks(userId \<mapsto> keys'))),
       loadKeyPair = (\<lambda>userId ks. (Inr (ks userId), ks)),
       deleteKeyPair = (\<lambda>userId ks. (Inr (), ks(userId := None))) \<rparr>"

section \<open>services/messaging.ts\<close>

text \<open>
  The calls that the service makes on its three collaborators, with their arguments.
\<close>

datatype call =
    KeyStorage_loadKeyPair jsstring
  | KeyStorage_storeKeyPair jsstring StoredKeyPair
  | Adapter_getConversation jsstring
  | Adapter_sendMessage jsstring jsstring SendMessageOptions
  | Adapter_storePublicKey jsstring jsstring
  | Adapter_getPublicKey jsstring
  | Adapter_storeKeyBackup jsstring jsstring
  | Adapter_getKeyBackup jsstring
  | Adapter_recordPinAttempt jsstring bool
  | Encryption_generateKeyPair
  | Encryption_encryptMessage jsstring bytes bytes
  | Encryption_decryptMessage jsvalue bytes bytes
  | Encryption_encryptPrivateKeyWithPin bytes jsstring
  | Encryption_decryptPrivateKeyWithPin jsstring jsstring

text \<open>
  The class \<^verbatim>\<open>MessagingService\<close>: its four configuration fields, its three mutable
  fields, and with them what its methods act on: the state behind each collaborator,
  and the log of the calls made on them so far (\<open>calls\<close>, oldest first).
\<close>

record ('a, 'k, 'e) MessagingService =
  adapter :: "'a MessagingAdapter"
  keyStorage :: "'k KeyStorage"
  encryption :: "'e E2EEncryption"
  e2eEnabled :: bool
  currentUserId :: "jsstring option"
  keyPair :: "KeyPair option"
  publicKeyCache :: "jsstring \<rightharpoonup> bytes"
  adapterState :: 'a
  keyStorageState :: 'k
  entropy :: 'e
  calls :: "call list"

text \<open>
  The constructor, given the collaborators and their initial states (the defaults of
  \<^verbatim>\<open>keyStorage\<close> and \<^verbatim>\<open>encryption\<close> are left to the caller).
\<close>

definition createMessagingService ::
  "'a MessagingAdapter \<Rightarrow> 'k KeyStorage \<Rightarrow> 'e E2EEncryption \<Rightarrow> bool \<Rightarrow> 'a \<Rightarrow> 'k \<Rightarrow> 'e
   \<Rightarrow> ('a, 'k, 'e) MessagingService" where
  "createMessagingService adapter' keyStorage' encryption' e2eEnabled' a k e =
     \<lparr> adapter = adapter', keyStorage = keyStorage', encryption = encryption',
       e2eEnabled = e2eEnabled', currentUserId = None, keyPair = None,
       publicKeyCache = Map.empty, adapterState = a, keyStorageState = k, entropy = e,
       calls = [] \<rparr>"

text \<open>A call on a collaborator runs on that collaborator's state and is logged.\<close>

definition call_adapter ::
  "call \<Rightarrow> ('a, 'r) promise \<Rightarrow> (('a, 'k, 'e) MessagingService, 'r) promise" where
  "call_adapter c m = (\<lambda>this.
     case m (adapterState this) of
       (r, a') \<Rightarrow> (r, this\<lparr>adapterState := a', calls := calls this @ [c]\<rparr>))"

definition call_keyStorage ::
  "call \<Rightarrow> ('k, 'r) promise \<Rightarrow> (('a, 'k, 'e) MessagingService, 'r) promise" where
  "call_keyStorage c m = (\<lambda>this.
     case m (keyStorageState this) of
       (r, k') \<Rightarrow> (r, this\<lparr>keyStorageState := k', calls := calls this @ [c]\<rparr>))"

definition call_encryption ::
  "call \<Rightarrow> ('e, 'r) promise \<Rightarrow> (('a, 'k, 'e) MessagingService, 'r) promise" where
  "call_encryption c m = (\<lambda>this.
     case m (entropy this) of
       (r, e') \<Rightarrow> (r, this\<lparr>entropy := e', calls := calls this @ [c]\<rparr>))"

text \<open>\<^verbatim>\<open>this.encryption\<close>, each of its methods a logged call.\<close>

definition this_encryption ::
  "'e E2EEncryption \<Rightarrow> ('a, 'k, 'e) MessagingService E2EEncryption" where
  "this_encryption enc =
     \<lparr> generateKeyPair = call_encryption Encryption_generateKeyPair (generateKeyPair enc),
       encryptMessage = (\<lambda>p pk sk.
         call_encryption (Encryption_encryptMessage p pk sk) (encryptMessage enc p pk sk)),
       decryptMessage = (\<lambda>c pk sk.
         call_encryption (Encryption_decryptMessage c pk sk) (decryptMessage enc c pk sk)),
       encryptPrivateKeyWithPin = (\<lambda>sk pin.
         call_encryption (Encryption_encryptPrivateKeyWithPin sk pin)
           (encryptPrivateKeyWithPin enc sk pin)),
       decryptPrivateKeyWithPin = (\<lambda>b pin.
         call_encryption (Encryption_decryptPrivateKeyWithPin b pin)
           (decryptPrivateKeyWithPin enc b pin)) \<rparr>"

definition modify :: "('s \<Rightarrow> 's) \<Rightarrow> ('s, unit) promise" where
  "modify f = (\<lambda>s. (Inr (), f s))"

text \<open>
  The active user: \<^verbatim>\<open>!this.currentUserId\<close> holds for \<^verbatim>\<open>null\<close> and for the empty
  string.
\<close>

definition active_user :: "('a, 'k, 'e) MessagingService \<Rightarrow> jsstring option" where
  "active_user this =
     (case currentUserId this of
        None \<Rightarrow> None
      | Some userId \<Rightarrow> if userId = [] then None else Some userId)"

text \<open>The errors that the service throws, under the names of the error taxonomy.\<close>

definition ValidationError :: error where
  "ValidationError = Error ''PIN must be exactly 6 digits''"

definition RateLimited :: error where
  "RateLimited = Error ''Too many attempts. Please try again in 15 minutes.''"

definition IncorrectPin :: error where
  "IncorrectPin = Error ''Incorrect PIN''"

definition setCurrentUser ::
  "jsstring \<Rightarrow> ('a, 'k, 'e) MessagingService \<Rightarrow> ('a, 'k, 'e) MessagingService" where
  "setCurrentUser userId this =
     (if currentUserId this \<noteq> Some userId
      then this\<lparr>currentUserId := Some userId, keyPair := None, publicKeyCache := Map.empty\<rparr>
      else this)"

definition getEncryptionStatus ::
  "(('a, 'k, 'e) MessagingService, EncryptionStatus) promise" where
  "getEncryptionStatus = (\<lambda>this.
     if \<not> e2eEnabled this then resolve ready this
     else case active_user this of
       None \<Rightarrow> resolve status_error this
     | Some userId \<Rightarrow>
        await (call_keyStorage (KeyStorage_loadKeyPair userId)
                 (loadKeyPair (keyStorage this) userId)) (\<lambda>localKeys.
          case localKeys of
            Some keys' \<Rightarrow>
              (case getKeyBackup (adapter this) of
                 Some getKeyBackup' \<Rightarrow>
                   await (call_adapter (Adapter_getKeyBackup userId) (getKeyBackup' userId))
                     (\<lambda>backup.
                       resolve (if truthy_string (encryptedKey backup)
                                then ready else needs_pin_setup))
               | None \<Rightarrow> resolve ready)
          | None \<Rightarrow>
              await (case getKeyBackup (adapter this) of
                       Some getKeyBackup' \<Rightarrow>
                         await (call_adapter (Adapter_getKeyBackup userId) (getKeyBackup' userId))
                           (\<lambda>backup. resolve (truthy_string (encryptedKey backup)))
                     | None \<Rightarrow> resolve False) (\<lambda>backupFound.
                if backupFound then resolve has_backup
                else case getPublicKey (adapter this) of
                       Some getPublicKey' \<Rightarrow>
                         await (call_adapter (Adapter_getPublicKey userId) (getPublicKey' userId))
                           (\<lambda>publicKey'.
                             resolve (if truthy_string publicKey'
                                      then needs_regeneration else needs_setup))
                     | None \<Rightarrow> resolve needs_setup)) this)"

definition initializeEncryption ::
  "'e platform \<Rightarrow> (('a, 'k, 'e) MessagingService, bool) promise" where
  "initializeEncryption L = (\<lambda>this.
     if \<not> e2eEnabled this then resolve True this
     else case active_user this of
       None \<Rightarrow> resolve False this
     | Some userId \<Rightarrow>
        await (call_keyStorage (KeyStorage_loadKeyPair userId)
                 (loadKeyPair (keyStorage this) userId)) (\<lambda>localKeys.
          case localKeys of
            Some keys' \<Rightarrow>
              await (settle (base64ToBytes L (stored_publicKey keys'))) (\<lambda>pk.
              await (settle (base64ToBytes L (stored_secretKey keys'))) (\<lambda>sk.
              await (modify (\<lambda>t. t\<lparr>keyPair := Some \<lparr>publicKey = pk, secretKey = sk\<rparr>\<rparr>)) (\<lambda>u.
                resolve True)))
          | None \<Rightarrow> resolve False) this)"

definition setupEncryption ::
  "'e platform \<Rightarrow> jsstring \<Rightarrow> (('a, 'k, 'e) MessagingService, bool) promise" where
  "setupEncryption L pin = (\<lambda>this.
     case active_user this of
       None \<Rightarrow> resolve False this
     | Some userId \<Rightarrow>
        if pin_rejected pin then reject ValidationError this
        else
         await (generateKeyPair (this_encryption (encryption this))) (\<lambda>keyPair'.
           let publicKeyBase64 = bytesToBase64 L (publicKey keyPair');
               secretKeyBase64 = bytesToBase64 L (secretKey keyPair')
           in
         await (encryptPrivateKeyWithPin (this_encryption (encryption this))
                  (secretKey keyPair') pin) (\<lambda>encryptedBackup.
         await (case storePublicKey (adapter this) of
                  Some storePublicKey' \<Rightarrow>
                    call_adapter (Adapter_storePublicKey userId publicKeyBase64)
                      (storePublicKey' userId publicKeyBase64)
                | None \<Rightarrow> resolve ()) (\<lambda>u1.
         await (case storeKeyBackup (adapter this) of
                  Some storeKeyBackup' \<Rightarrow>
                    call_adapter (Adapter_storeKeyBackup userId encryptedBackup)
                      (storeKeyBackup' userId encryptedBackup)
                | None \<Rightarrow> resolve ()) (\<lambda>u2.
           let stored = \<lparr> stored_publicKey = publicKeyBase64,
                          stored_secretKey = secretKeyBase64 \<rparr>
           in
         await (call_keyStorage (KeyStorage_storeKeyPair userId stored)
                  (storeKeyPair (keyStorage this) userId stored)) (\<lambda>u3.
         await (modify (\<lambda>t. t\<lparr>keyPair := Some keyPair'\<rparr>)) (\<lambda>u4.
           resolve True)))))) this)"

definition restoreEncryption ::
  "'e platform \<Rightarrow> jsstring \<Rightarrow> (('a, 'k, 'e) MessagingService, bool) promise" where
  "restoreEncryption L pin = (\<lambda>this.
     case active_user this of
       None \<Rightarrow> resolve False this
     | Some userId \<Rightarrow>
        if pin_rejected pin then reject ValidationError this
        else (case getKeyBackup (adapter this) of
          None \<Rightarrow> reject (Error ''Key backup not supported by adapter'') this
        | Some getKeyBackup' \<Rightarrow>
           await (call_adapter (Adapter_getKeyBackup userId) (getKeyBackup' userId)) (\<lambda>backup.
             if rateLimited backup then reject RateLimited
             else case encryptedKey backup of
               None \<Rightarrow> reject (Error ''No backup found on server'')
             | Some encryptedKey' \<Rightarrow>
                if encryptedKey' = [] then reject (Error ''No backup found on server'')
                else
                 await (decryptPrivateKeyWithPin (this_encryption (encryption this))
                          encryptedKey' pin) (\<lambda>decrypted.
                   case decrypted of
                     None \<Rightarrow>
                       await (case recordPinAttempt (adapter this) of
                                Some recordPinAttempt' \<Rightarrow>
                                  call_adapter (Adapter_recordPinAttempt userId False)
                                    (recordPinAttempt' userId False)
                              | None \<Rightarrow> resolve ()) (\<lambda>u1.
                         reject IncorrectPin)
                   | Some secretKey' \<Rightarrow>
                       await (case recordPinAttempt (adapter this) of
                                Some recordPinAttempt' \<Rightarrow>
                                  call_adapter (Adapter_recordPinAttempt userId True)
                                    (recordPinAttempt' userId True)
                              | None \<Rightarrow> resolve ()) (\<lambda>u1.
                       await (settle (publicKeyFromPrivate L secretKey')) (\<lambda>publicKey'.
                         let stored = \<lparr> stored_publicKey = bytesToBase64 L publicKey',
                                        stored_secretKey = bytesToBase64 L secretKey' \<rparr>
                         in
                       await (call_keyStorage (KeyStorage_storeKeyPair userId stored)
                                (storeKeyPair (keyStorage this) userId stored)) (\<lambda>u2.
                       await (modify (\<lambda>t. t\<lparr>keyPair :=
                                Some \<lparr>publicKey = publicKey', secretKey = secretKey'\<rparr>\<rparr>)) (\<lambda>u3.
                         resolve True)))))) this))"

definition isEncryptionReady :: "('a, 'k, 'e) MessagingService \<Rightarrow> bool" where
  "isEncryptionReady this \<longleftrightarrow> \<not> e2eEnabled this \<or> keyPair this \<noteq> None"

text \<open>The private method \<^verbatim>\<open>getPublicKey\<close> of the service, with its cache.\<close>

definition MessagingService_getPublicKey ::
  "'e platform \<Rightarrow> jsstring \<Rightarrow> (('a, 'k, 'e) MessagingService, bytes option) promise" where
  "MessagingService_getPublicKey L userId = (\<lambda>this.
     case publicKeyCache this userId of
       Some cached \<Rightarrow> resolve (Some cached) this
     | None \<Rightarrow>
        (case getPublicKey (adapter this) of
           Some getPublicKey' \<Rightarrow>
             await (call_adapter (Adapter_getPublicKey userId) (getPublicKey' userId)) (\<lambda>publicKey'.
               case publicKey' of
                 None \<Rightarrow> resolve None
               | Some base64 \<Rightarrow>
                  if base64 = [] then resolve None
                  else
                   await (settle (base64ToBytes L base64)) (\<lambda>bytes'.
                   await (modify (\<lambda>t. t\<lparr>publicKeyCache := (publicKeyCache t)(userId \<mapsto> bytes')\<rparr>))
                     (\<lambda>u. resolve (Some bytes'))))
         | None \<Rightarrow> resolve None) this)"

definition MessagingService_getConversation ::
  "jsstring \<Rightarrow> (('a, 'k, 'e) MessagingService, Conversation option) promise" where
  "MessagingService_getConversation id' = (\<lambda>this.
     call_adapter (Adapter_getConversation id') (getConversation (adapter this) id') this)"

text \<open>
  \<^verbatim>\<open>sendMessage\<close>. \<open>body\<close> is the local variable \<^verbatim>\<open>content\<close> of the source: the
  plaintext, replaced by the serialised dual envelope in the one-recipient branch.
\<close>

definition MessagingService_sendMessage ::
  "'e platform \<Rightarrow> jsstring \<Rightarrow> SendMessageOptions
   \<Rightarrow> (('a, 'k, 'e) MessagingService, Message) promise" where
  "MessagingService_sendMessage L conversationId message = (\<lambda>this.
     case active_user this of
       None \<Rightarrow> reject (Error ''No user set'') this
     | Some userId \<Rightarrow>
        await
          (case keyPair this of
             None \<Rightarrow> resolve (content message)
           | Some keyPair' \<Rightarrow>
              if \<not> e2eEnabled this then resolve (content message)
              else
               await (MessagingService_getConversation conversationId) (\<lambda>conversation.
                 case conversation of
                   None \<Rightarrow> reject (Error ''Conversation not found'')
                 | Some conversation' \<Rightarrow>
                    let otherParticipants =
                          filter (\<lambda>p. user_id p \<noteq> userId) (conv_participants conversation')
                    in (case otherParticipants of
                         [recipient] \<Rightarrow>
                           let recipientId = user_id recipient in
                           await (MessagingService_getPublicKey L recipientId) (\<lambda>recipientPublicKey.
                             case recipientPublicKey of
                               None \<Rightarrow> reject (Error ''Recipient has not set up encryption'')
                             | Some recipientPublicKey' \<Rightarrow>
                                await (createEncryptedContent (this_encryption (encryption this))
                                         (content message) (secretKey keyPair') (publicKey keyPair')
                                         recipientPublicKey' recipientId) (\<lambda>encrypted.
                                  resolve (JSON_stringify L (EncryptedContent_json encrypted))))
                       | _ \<Rightarrow> resolve (content message))))
          (\<lambda>body.
            await (call_adapter
                     (Adapter_sendMessage conversationId userId (message\<lparr>content := body\<rparr>))
                     (sendMessage (adapter this) conversationId userId (message\<lparr>content := body\<rparr>)))
              (\<lambda>sent.
                resolve (sent\<lparr> msg_content := content message,
                               msg_contentEncrypted :=
                                 (if e2eEnabled this then Some body else None) \<rparr>))) this)"

text \<open>The private method \<^verbatim>\<open>decryptMessage\<close> of the service.\<close>

definition MessagingService_decryptMessage ::
  "'e platform \<Rightarrow> Message \<Rightarrow> (('a, 'k, 'e) MessagingService, Message) promise" where
  "MessagingService_decryptMessage L message = (\<lambda>this.
     if \<not> e2eEnabled this then resolve message this
     else case keyPair this of
       None \<Rightarrow> resolve message this
     | Some keyPair' \<Rightarrow>
        (case active_user this of
           None \<Rightarrow> resolve message this
         | Some userId \<Rightarrow>
            try_catch
              (await (MessagingService_getPublicKey L (msg_senderId message)) (\<lambda>senderPublicKey.
                 case senderPublicKey of
                   None \<Rightarrow>
                     resolve (message\<lparr>msg_content := str ''[Unable to decrypt: sender key not found]''\<rparr>)
                 | Some senderPublicKey' \<Rightarrow>
                    await (decryptMessageContent L (this_encryption (encryption this))
                             (msg_content message) (msg_senderId message) userId
                             senderPublicKey' (secretKey keyPair')) (\<lambda>decrypted.
                      case decrypted of
                        None \<Rightarrow> resolve (message\<lparr>msg_content := str ''[Unable to decrypt message]''\<rparr>)
                      | Some text' \<Rightarrow>
                         if text' = []
                         then resolve (message\<lparr>msg_content := str ''[Unable to decrypt message]''\<rparr>)
                         else resolve (message\<lparr> msg_content := text',
                                                msg_contentEncrypted :=
                                                  Some (msg_content message) \<rparr>))))
              (\<lambda>e. resolve (message\<lparr>msg_content := str ''[Decryption error]''\<rparr>)) this))"

subsection \<open>The inputs of the status table\<close>

text \<open>
  The three observations from which the status is derived: whether the Local Key Store
  holds a key pair for the user, whether the Key Directory holds a backup blob, and
  whether it holds a public key. Each is defined by the query that
  \<^verbatim>\<open>getEncryptionStatus\<close> makes and by the truthiness test that it applies to the
  reply; a directory without the method holds nothing. The public key is asked for
  after the backup, so on the state that the backup query leaves.
\<close>

definition local_key_present ::
  "('a, 'k, 'e) MessagingService \<Rightarrow> jsstring \<Rightarrow> error + bool" where
  "local_key_present this userId =
     (case loadKeyPair (keyStorage this) userId (keyStorageState this) of
        (Inl e, k') \<Rightarrow> Inl e
      | (Inr keys', k') \<Rightarrow> Inr (keys' \<noteq> None))"

definition remote_backup_present ::
  "('a, 'k, 'e) MessagingService \<Rightarrow> jsstring \<Rightarrow> (error + bool) \<times> 'a" where
  "remote_backup_present this userId =
     (case getKeyBackup (adapter this) of
        None \<Rightarrow> (Inr False, adapterState this)
      | Some getKeyBackup' \<Rightarrow>
         (case getKeyBackup' userId (adapterState this) of
            (Inl e, a') \<Rightarrow> (Inl e, a')
          | (Inr backup, a') \<Rightarrow> (Inr (truthy_string (encryptedKey backup)), a')))"

definition remote_public_key_present ::
  "('a, 'k, 'e) MessagingService \<Rightarrow> jsstring \<Rightarrow> error + bool" where
  "remote_public_key_present this userId =
     (case getPublicKey (adapter this) of
        None \<Rightarrow> Inr False
      | Some getPublicKey' \<Rightarrow>
         (case getPublicKey' userId (snd (remote_backup_present this userId)) of
            (Inl e, a') \<Rightarrow> Inl e
          | (Inr publicKey', a') \<Rightarrow> Inr (truthy_string publicKey')))"

section \<open>adapters/memory.ts\<close>

text \<open>
  \<^verbatim>\<open>MemoryMessagingAdapter\<close>: the methods that the service calls, on the five maps and
  the counter of the class. Time stamps and subscriber callbacks are left out.
\<close>

record MemoryAdapterState =
  mem_conversations :: "jsstring \<rightharpoonup> Conversation"
  mem_messages :: "jsstring \<rightharpoonup> Message list"
  mem_publicKeys :: "jsstring \<rightharpoonup> jsstring"
  mem_keyBackups :: "jsstring \<rightharpoonup> jsstring"
  mem_idCounter :: nat

text \<open>The decimal numeral of a number, as the template literal prints it.\<close>

fun decimal :: "nat \<Rightarrow> string" where
  "decimal n =
     (if n < 10 then [char_of (48 + n)]
      else decimal (n div 10) @ [char_of (48 + n mod 10)])"

declare decimal.simps [simp del]

definition Memory_getConversation ::
  "jsstring \<Rightarrow> (MemoryAdapterState, Conversation option) promise" where
  "Memory_getConversation id' = (\<lambda>st. (Inr (mem_conversations st id'), st))"

definition Memory_sendMessage ::
  "jsstring \<Rightarrow> jsstring \<Rightarrow> SendMessageOptions \<Rightarrow> (MemoryAdapterState, Message) promise" where
  "Memory_sendMessage conversationId senderId message = (\<lambda>st.
     case mem_conversations st conversationId of
       None \<Rightarrow> (Inl (Error ''Conversation not found''), st)
     | Some conversation \<Rightarrow>
        let id' = str (decimal (mem_idCounter st));
            newMessage = \<lparr> msg_id = id', msg_conversationId = conversationId,
                           msg_senderId = senderId, msg_content = content message,
                           msg_contentEncrypted = None, msg_replyTo = replyTo message \<rparr>;
            messages = (case mem_messages st conversationId of None \<Rightarrow> [] | Some ms \<Rightarrow> ms)
        in (Inr newMessage,
            st\<lparr> mem_idCounter := mem_idCounter st + 1,
                mem_messages := (mem_messages st)(conversationId \<mapsto> messages @ [newMessage]) \<rparr>))"

definition Memory_storePublicKey :: "jsstring \<Rightarrow> jsstring \<Rightarrow> (MemoryAdapterState, unit) promise" where
  "Memory_storePublicKey userId publicKey' = (\<lambda>st.
     (Inr (), st\<lparr>mem_publicKeys := (mem_publicKeys st)(userId \<mapsto> publicKey')\<rparr>))"

definition Memory_getPublicKey :: "jsstring \<Rightarrow> (MemoryAdapterState, jsstring option) promise" where
  "Memory_getPublicKey userId = (\<lambda>st. (Inr (mem_publicKeys st userId), st))"

definition Memory_storeKeyBackup :: "jsstring \<Rightarrow> jsstring \<Rightarrow> (MemoryAdapterState, unit) promise" where
  "Memory_storeKeyBackup userId encryptedPrivateKey = (\<lambda>st.
     (Inr (), st\<lparr>mem_keyBackups := (mem_keyBackups st)(userId \<mapsto> encryptedPrivateKey)\<rparr>))"

definition Memory_getKeyBackup :: "jsstring \<Rightarrow> (MemoryAdapterState, KeyBackup) promise" where
  "Memory_getKeyBackup userId = (\<lambda>st.
     (Inr \<lparr> encryptedKey = mem_keyBackups st userId, rateLimited = False \<rparr>, st))"

definition Memory_recordPinAttempt :: "jsstring \<Rightarrow> bool \<Rightarrow> (MemoryAdapterState, unit) promise" where
  "Memory_recordPinAttempt userId success = (\<lambda>st. (Inr (), st))"

definition MemoryMessagingAdapter :: "MemoryAdapterState MessagingAdapter" where
  "MemoryMessagingAdapter =
     \<lparr> getConversation = Memory_getConversation,
       sendMessage = Memory_sendMessage,
       storePublicKey = Some Memory_storePublicKey,
       getPublicKey = Some Memory_getPublicKey,
       storeKeyBackup = Some Memory_storeKeyBackup,
       getKeyBackup = Some Memory_getKeyBackup,
       recordPinAttempt = Some Memory_recordPinAttempt \<rparr>"

definition Memory_empty :: MemoryAdapterState where
  "Memory_empty =
     \<lparr> mem_conversations = Map.empty, mem_messages = Map.empty, mem_publicKeys = Map.empty,
       mem_keyBackups = Map.empty, mem_idCounter = 1 \<rparr>"

section \<open>An executable platform\<close>

text \<open>
  A small instance of the platform record, on which the model runs on concrete inputs.
  Its functions are stand-ins that obey the contracts above and nothing more: the
  entropy source is a counter, a public key equals its secret key, a box is the
  plaintext behind a one-byte tag computed from the two keys, the text of a byte array
  has two code units per byte, the bytes of a well-formed string are two per code unit,
  and only the dual envelope is serialised.
\<close>

definition sim_randomBytes :: "nat \<Rightarrow> (nat, bytes) promise" where
  "sim_randomBytes n = (\<lambda>e. (Inr (replicate n (of_nat e)), Suc e))"

definition sim_box_keyPair :: "(nat, KeyPair) promise" where
  "sim_box_keyPair = (\<lambda>e.
     (Inr \<lparr>publicKey = replicate 32 (of_nat e), secretKey = replicate 32 (of_nat e)\<rparr>, Suc e))"

definition sim_fromSecretKey :: "bytes \<Rightarrow> error + KeyPair" where
  "sim_fromSecretKey sk =
     (if length sk = 32 then Inr \<lparr>publicKey = sk, secretKey = sk\<rparr>
      else Inl (Error ''bad secret key size''))"

definition sim_box :: "bytes \<Rightarrow> bytes \<Rightarrow> bytes \<Rightarrow> bytes \<Rightarrow> error + bytes option" where
  "sim_box m n pk sk = Inr (Some ((sum_list pk + sum_list sk) # m))"

definition sim_box_open :: "bytes \<Rightarrow> bytes \<Rightarrow> bytes \<Rightarrow> bytes \<Rightarrow> error + bytes option" where
  "sim_box_open c n pk sk =
     (case c of
        [] \<Rightarrow> Inr None
      | t # m \<Rightarrow> if t = sum_list pk + sum_list sk then Inr (Some m) else Inr None)"

definition sim_secretbox :: "bytes \<Rightarrow> bytes \<Rightarrow> bytes \<Rightarrow> error + bytes option" where
  "sim_secretbox m n k = Inr (Some (sum_list k # m))"

definition sim_secretbox_open :: "bytes \<Rightarrow> bytes \<Rightarrow> bytes \<Rightarrow> error + bytes option" where
  "sim_secretbox_open c n k =
     (case c of
        [] \<Rightarrow> Inr None
      | t # m \<Rightarrow> if t = sum_list k then Inr (Some m) else Inr None)"

definition sim_encodeBase64 :: "bytes \<Rightarrow> jsstring" where
  "sim_encodeBase64 bs = concat (map (\<lambda>b. [code_unit_of CHR ''A'', ucast b]) bs)"

fun sim_unpair :: "jsstring \<Rightarrow> bytes option" where
  "sim_unpair [] = Some []"
| "sim_unpair [c] = None"
| "sim_unpair (c # d # cs) =
     (if c = code_unit_of CHR ''A''
      then (case sim_unpair cs of None \<Rightarrow> None | Some bs \<Rightarrow> Some (ucast d # bs))
      else None)"

definition sim_decodeBase64 :: "jsvalue \<Rightarrow> error + bytes" where
  "sim_decodeBase64 v =
     (case v of
        JString s' \<Rightarrow>
          (case sim_unpair s' of
             None \<Rightarrow> Inl (TypeError ''invalid encoding'')
           | Some bs \<Rightarrow> Inr bs)
      | _ \<Rightarrow> Inl (TypeError ''expected string''))"

text \<open>A code unit as two bytes, the high one first, and the way back.\<close>

definition sim_two_bytes :: "jsstring \<Rightarrow> bytes" where
  "sim_two_bytes s' =
     concat (map (\<lambda>c. [ucast (drop_bit 8 c), ucast c]) s')"

fun sim_code_units :: "bytes \<Rightarrow> jsstring option" where
  "sim_code_units [] = Some []"
| "sim_code_units [b] = None"
| "sim_code_units (h # l # bs) =
     (case sim_code_units bs of
        None \<Rightarrow> None
      | Some cs \<Rightarrow> Some (word_cat h l # cs))"

definition sim_encodeUTF8 :: "bytes \<Rightarrow> error + jsstring" where
  "sim_encodeUTF8 bs =
     (case sim_code_units bs of
        None \<Rightarrow> Inl (URIError ''URI malformed'')
      | Some s' \<Rightarrow> Inr s')"

definition sim_TextEncoder_encode :: "jsstring \<Rightarrow> bytes" where
  "sim_TextEncoder_encode s' = sim_two_bytes s'"

definition sim_decodeUTF8 :: "jsstring \<Rightarrow> error + bytes" where
  "sim_decodeUTF8 s' =
     (if well_formed s' then Inr (sim_two_bytes s') else Inl (URIError ''URI malformed''))"

definition sim_PBKDF2 :: "bytes \<Rightarrow> bytes \<Rightarrow> nat \<Rightarrow> nat \<Rightarrow> error + bytes" where
  "sim_PBKDF2 password salt iterations bits =
     Inr (take (bits div 8) (password @ salt @ replicate (bits div 8) 0))"

text \<open>A string behind its length in unary, and the way back.\<close>

definition sim_frame :: "jsstring \<Rightarrow> jsstring" where
  "sim_frame a = replicate (length a) (code_unit_of CHR ''x'') @ code_unit_of CHR ''|'' # a"

definition sim_unframe :: "jsstring \<Rightarrow> (jsstring \<times> jsstring) option" where
  "sim_unframe t =
     (let n = length (takeWhile (\<lambda>c. c = code_unit_of CHR ''x'') t)
      in case drop n t of
           [] \<Rightarrow> None
         | c # u \<Rightarrow>
            if c = code_unit_of CHR ''|'' \<and> n \<le> length u then Some (take n u, drop n u)
            else None)"

definition sim_JSON_stringify :: "jsvalue \<Rightarrow> jsstring" where
  "sim_JSON_stringify v =
     (case v of
        JObject [(k1, JString a), (k2, JString b), (k3, JString c)] \<Rightarrow>
          code_unit_of CHR ''{'' # sim_frame a @ sim_frame b @ c
      | _ \<Rightarrow> str ''null'')"

definition sim_JSON_parse :: "jsstring \<Rightarrow> error + jsvalue" where
  "sim_JSON_parse t =
     (case t of
        [] \<Rightarrow> Inl (Error ''SyntaxError'')
      | c # u \<Rightarrow>
         if c \<noteq> code_unit_of CHR ''{'' then Inl (Error ''SyntaxError'')
         else (case sim_unframe u of
                 None \<Rightarrow> Inl (Error ''SyntaxError'')
               | Some (a, u') \<Rightarrow>
                  (case sim_unframe u' of
                     None \<Rightarrow> Inl (Error ''SyntaxError'')
                   | Some (b, c') \<Rightarrow>
                      Inr (JObject [(str ''s'', JString a), (str ''r'', JString b),
                                    (str ''recipientId'', JString c')]))))"

definition sim_platform :: "nat platform" where
  "sim_platform =
     \<lparr> randomBytes = sim_randomBytes,
       box_keyPair = sim_box_keyPair,
       box_keyPair_fromSecretKey = sim_fromSecretKey,
       box = sim_box,
       box_open = sim_box_open,
       secretbox = sim_secretbox,
       secretbox_open = sim_secretbox_open,
       encodeBase64 = sim_encodeBase64,
       decodeBase64 = sim_decodeBase64,
       encodeUTF8 = sim_encodeUTF8,
       decodeUTF8 = sim_decodeUTF8,
       TextEncoder_encode = sim_TextEncoder_encode,
       PBKDF2_SHA256 = sim_PBKDF2,
       JSON_parse = sim_JSON_parse,
       JSON_stringify = sim_JSON_stringify \<rparr>"

section \<open>Concrete inputs\<close>

text \<open>
  Users, key pairs and services built from \<^verbatim>\<open>MemoryMessagingAdapter\<close>,
  \<^verbatim>\<open>MemoryKeyStorage\<close> and \<^verbatim>\<open>TweetNaClEncryption\<close> on the executable platform, on
  which the statements below are evaluated.
\<close>

definition alice_keys :: KeyPair where
  "alice_keys = \<lparr>publicKey = replicate 32 1, secretKey = replicate 32 1\<rparr>"

definition bob_keys :: KeyPair where
  "bob_keys = \<lparr>publicKey = replicate 32 2, secretKey = replicate 32 2\<rparr>"

definition alice_stored :: StoredKeyPair where
  "alice_stored =
     \<lparr> stored_publicKey = bytesToBase64 sim_platform (publicKey alice_keys),
       stored_secretKey = bytesToBase64 sim_platform (secretKey alice_keys) \<rparr>"

type_synonym demo_service = "(MemoryAdapterState, jsstring \<rightharpoonup> StoredKeyPair, nat) MessagingService"

text \<open>A service for Alice over a given adapter, remote state and local key store.\<close>

definition service_for_alice ::
  "MemoryAdapterState MessagingAdapter \<Rightarrow> bool \<Rightarrow> MemoryAdapterState
   \<Rightarrow> (jsstring \<rightharpoonup> StoredKeyPair) \<Rightarrow> demo_service" where
  "service_for_alice adapter' e2e remote local =
     setCurrentUser (str ''alice'')
       (createMessagingService adapter' MemoryKeyStorage (TweetNaClEncryption sim_platform)
          e2e remote local 0)"

text \<open>A backup blob that no PIN opens, and remote states that hold it or a public key.\<close>

definition unreadable_blob :: jsstring where
  "unreadable_blob = str ''AA''"

definition remote_with_backup :: MemoryAdapterState where
  "remote_with_backup = Memory_empty\<lparr>mem_keyBackups := [str ''alice'' \<mapsto> unreadable_blob]\<rparr>"

definition remote_with_public_key :: MemoryAdapterState where
  "remote_with_public_key =
     Memory_empty\<lparr>mem_publicKeys := [str ''alice'' \<mapsto> stored_publicKey alice_stored]\<rparr>"

definition local_with_alice :: "jsstring \<rightharpoonup> StoredKeyPair" where
  "local_with_alice = [str ''alice'' \<mapsto> alice_stored]"

definition local_empty :: "jsstring \<rightharpoonup> StoredKeyPair" where
  "local_empty = Map.empty"

text \<open>The services of the status table, the last one with no active user.\<close>

definition alice_fresh :: demo_service where
  "alice_fresh = service_for_alice MemoryMessagingAdapter True Memory_empty local_empty"

definition alice_ready :: demo_service where
  "alice_ready = service_for_alice MemoryMessagingAdapter True remote_with_backup local_with_alice"

definition alice_local_only :: demo_service where
  "alice_local_only = service_for_alice MemoryMessagingAdapter True Memory_empty local_with_alice"

definition alice_has_backup :: demo_service where
  "alice_has_backup = service_for_alice MemoryMessagingAdapter True remote_with_backup local_empty"

definition alice_needs_regeneration :: demo_service where
  "alice_needs_regeneration =
     service_for_alice MemoryMessagingAdapter True remote_with_public_key local_empty"

definition nobody :: demo_service where
  "nobody =
     createMessagingService MemoryMessagingAdapter MemoryKeyStorage
       (TweetNaClEncryption sim_platform) True Memory_empty local_empty 0"

text \<open>Two services of a deployment with E2E encryption disabled.\<close>

definition nobody_e2e_disabled :: demo_service where
  "nobody_e2e_disabled =
     createMessagingService MemoryMessagingAdapter MemoryKeyStorage
       (TweetNaClEncryption sim_platform) False Memory_empty local_empty 0"

definition alice_e2e_disabled :: demo_service where
  "alice_e2e_disabled = service_for_alice MemoryMessagingAdapter False Memory_empty local_empty"

text \<open>Adapters that lack one optional method, and one whose directory is rate limited.\<close>

definition adapter_without_getKeyBackup :: "MemoryAdapterState MessagingAdapter" where
  "adapter_without_getKeyBackup = MemoryMessagingAdapter\<lparr>getKeyBackup := None\<rparr>"

definition adapter_without_recordPinAttempt :: "MemoryAdapterState MessagingAdapter" where
  "adapter_without_recordPinAttempt = MemoryMessagingAdapter\<lparr>recordPinAttempt := None\<rparr>"

definition RateLimited_getKeyBackup :: "jsstring \<Rightarrow> (MemoryAdapterState, KeyBackup) promise" where
  "RateLimited_getKeyBackup userId = (\<lambda>st.
     (Inr \<lparr> encryptedKey = None, rateLimited = True \<rparr>, st))"

definition rate_limited_adapter :: "MemoryAdapterState MessagingAdapter" where
  "rate_limited_adapter = MemoryMessagingAdapter\<lparr>getKeyBackup := Some RateLimited_getKeyBackup\<rparr>"

definition alice_without_backup_capability :: demo_service where
  "alice_without_backup_capability =
     service_for_alice adapter_without_getKeyBackup True Memory_empty local_with_alice"

definition alice_unreported :: demo_service where
  "alice_unreported =
     service_for_alice adapter_without_recordPinAttempt True remote_with_backup local_empty"

definition alice_rate_limited :: demo_service where
  "alice_rate_limited = service_for_alice rate_limited_adapter True remote_with_backup local_empty"

text \<open>
  Alice with her key pair loaded and Bob's public key cached, in a remote state with a
  group of three and a conversation of two; and a stored message.
\<close>

definition group_conversation :: Conversation where
  "group_conversation =
     \<lparr> conv_id = str ''group'',
       conv_participants = [\<lparr>user_id = str ''alice''\<rparr>, \<lparr>user_id = str ''bob''\<rparr>, \<lparr>user_id = str ''carol''\<rparr>] \<rparr>"

definition dm_conversation :: Conversation where
  "dm_conversation =
     \<lparr> conv_id = str ''dm'',
       conv_participants = [\<lparr>user_id = str ''alice''\<rparr>, \<lparr>user_id = str ''bob''\<rparr>] \<rparr>"

definition remote_with_conversations :: MemoryAdapterState where
  "remote_with_conversations =
     Memory_empty\<lparr>mem_conversations :=
       [str ''group'' \<mapsto> group_conversation, str ''dm'' \<mapsto> dm_conversation]\<rparr>"

definition alice_loaded :: demo_service where
  "alice_loaded =
     (service_for_alice MemoryMessagingAdapter True remote_with_conversations local_with_alice)
       \<lparr> keyPair := Some alice_keys,
         publicKeyCache := [str ''bob'' \<mapsto> publicKey bob_keys] \<rparr>"

definition alice_not_loaded :: demo_service where
  "alice_not_loaded =
     service_for_alice MemoryMessagingAdapter True remote_with_conversations local_with_alice"

definition hello :: SendMessageOptions where
  "hello = \<lparr> content = str ''hello'', replyTo = None \<rparr>"

definition stored_message :: Message where
  "stored_message =
     \<lparr> msg_id = str ''1'', msg_conversationId = str ''dm'', msg_senderId = str ''alice'',
       msg_content = str ''AB'', msg_contentEncrypted = None, msg_replyTo = None \<rparr>"

text \<open>A plaintext that is not well formed: one high surrogate, with no partner.\<close>

definition lone_surrogate :: jsstring where
  "lone_surrogate = [0xD800]"

definition unsendable :: SendMessageOptions where
  "unsendable = \<lparr> content = lone_surrogate, replyTo = None \<rparr>"

text \<open>
  The message that the memory adapter makes of the first message that Alice sends, and
  the remote state with the two conversations after it has stored that message.
\<close>

definition first_message :: "jsstring \<Rightarrow> jsstring \<Rightarrow> jsstring option \<Rightarrow> Message" where
  "first_message conversationId body reply =
     \<lparr> msg_id = str ''1'', msg_conversationId = conversationId, msg_senderId = str ''alice'',
       msg_content = body, msg_contentEncrypted = None, msg_replyTo = reply \<rparr>"

definition remote_after :: "jsstring \<Rightarrow> jsstring \<Rightarrow> jsstring option \<Rightarrow> MemoryAdapterState" where
  "remote_after conversationId body reply =
     remote_with_conversations
       \<lparr> mem_idCounter := 2,
         mem_messages := [conversationId \<mapsto> [first_message conversationId body reply]] \<rparr>"


section \<open>Laws of the effect combinators\<close>

lemma await_resolve [simp]: "await (resolve x) f = f x"
  by (simp add: await_def resolve_def)

lemma await_reject [simp]: "await (reject e) f = reject e"
  by (simp add: await_def reject_def)

lemma await_settle_Inr [simp]: "await (settle (Inr x)) f = f x"
  by (simp add: await_def settle_def)

lemma await_settle_Inl [simp]: "await (settle (Inl e)) f = reject e"
  by (simp add: await_def settle_def reject_def)

lemma and_then_Inr [simp]: "and_then (Inr x) f = f x"
  by (simp add: and_then_def)

lemma and_then_Inl [simp]: "and_then (Inl e) f = Inl e"
  by (simp add: and_then_def)

lemma catch_null_simps [simp]: "catch_null (Inr v) = v" "catch_null (Inl e) = None"
  by (simp_all add: catch_null_def)

section \<open>JavaScript strings\<close>

lemma unat_code_unit_of: "unat (code_unit_of c) = of_char c"
proof -
  have "(of_char c :: nat) < 65536"
    using nat_of_char_less_256 [of c] by linarith
  then show ?thesis
    by (simp add: code_unit_of_def unat_of_nat)
qed

lemma code_unit_of_eq_iff [simp]: "code_unit_of c = code_unit_of d \<longleftrightarrow> c = d"
proof
  assume "code_unit_of c = code_unit_of d"
  then have "unat (code_unit_of c) = unat (code_unit_of d)" by simp
  then show "c = d" by (simp add: unat_code_unit_of)
qed simp

lemma str_eq_iff [simp]: "str a = str b \<longleftrightarrow> a = b"
  by (simp add: str_def inj_map_eq_map inj_on_def)

lemma str_Nil_iff [simp]: "str a = [] \<longleftrightarrow> a = []"
  by (simp add: str_def)

lemma length_str [simp]: "length (str a) = length a"
  by (simp add: str_def)

lemma is_digit_code_unit_of: "is_digit (code_unit_of c) \<longleftrightarrow> c \<in> set ''0123456789''"
  by (simp add: is_digit_def str_def)

lemma list_all_is_digit_str [simp]:
  "list_all is_digit (str a) \<longleftrightarrow> list_all (\<lambda>c. c \<in> set ''0123456789'') a"
  by (induction a) (simp_all add: str_def is_digit_code_unit_of del: set_simps)

lemma code_unit_of_no_surrogate:
  "\<not> is_high_surrogate (code_unit_of c)" "\<not> is_low_surrogate (code_unit_of c)"
proof -
  have "(of_char c :: nat) < 256" by simp
  then have "\<not> 55296 \<le> (of_char c :: nat)" and "\<not> 56320 \<le> (of_char c :: nat)"
    by linarith+
  then show "\<not> is_high_surrogate (code_unit_of c)" "\<not> is_low_surrogate (code_unit_of c)"
    by (simp_all add: is_high_surrogate_def is_low_surrogate_def word_le_nat_alt
        unat_code_unit_of)
qed

lemma well_formed_without_surrogates:
  "(\<And>c. c \<in> set s \<Longrightarrow> \<not> is_high_surrogate c \<and> \<not> is_low_surrogate c) \<Longrightarrow> well_formed s"
  by (induction s rule: well_formed.induct) simp_all

lemma well_formed_str [simp]: "well_formed (str a)"
  by (rule well_formed_without_surrogates) (auto simp add: str_def code_unit_of_no_surrogate)

lemma lone_surrogate_ill_formed: "\<not> well_formed lone_surrogate"
  by (simp add: lone_surrogate_def is_high_surrogate_def)

section \<open>The executable platform obeys the contracts\<close>

lemma sim_randomBytes_ok: "randomBytes_contract sim_platform"
  by (simp add: randomBytes_contract_def sim_platform_def sim_randomBytes_def)

lemma sim_secretbox_ok: "secretbox_contract sim_platform"
  by (simp add: secretbox_contract_def sim_platform_def sim_secretbox_def sim_secretbox_open_def)

lemma sim_pbkdf2_ok: "pbkdf2_contract sim_platform"
  by (auto simp add: pbkdf2_contract_def sim_platform_def sim_PBKDF2_def)

lemma byte_round_trip: "ucast (ucast (b :: 8 word) :: code_unit) = b"
  by (simp add: ucast_up_ucast_id is_up)

lemma sim_unpair_encode: "sim_unpair (sim_encodeBase64 bs) = Some bs"
  by (induction bs) (simp_all add: sim_encodeBase64_def byte_round_trip)

lemma sim_base64_ok: "base64_contract sim_platform"
  by (simp add: base64_contract_def sim_platform_def sim_decodeBase64_def sim_unpair_encode)
    (simp add: sim_encodeBase64_def)

lemma sim_is_keypair: "is_keypair sim_platform kp \<longleftrightarrow> length (secretKey kp) = 32 \<and> publicKey kp = secretKey kp"
  by (cases kp) (auto simp add: is_keypair_def sim_platform_def sim_fromSecretKey_def)

lemma sim_box_ok: "box_contract sim_platform"
  by (simp add: box_contract_def sim_is_keypair)
     (simp add: sim_platform_def sim_box_def sim_box_open_def add.commute)

lemma code_unit_round_trip:
  "word_cat (ucast (drop_bit 8 c) :: 8 word) (ucast c :: 8 word) = (c :: code_unit)"
  by (rule bit_word_eqI) (auto simp add: bit_simps)

lemma sim_code_units_two_bytes: "sim_code_units (sim_two_bytes s) = Some s"
  by (induction s) (simp_all add: sim_two_bytes_def code_unit_round_trip)

lemma sim_utf8_ok: "utf8_contract sim_platform"
  by (simp add: utf8_contract_def sim_platform_def sim_decodeUTF8_def sim_encodeUTF8_def
      sim_code_units_two_bytes)

lemma takeWhile_replicate_stop:
  "y \<noteq> x \<Longrightarrow> takeWhile (\<lambda>c. c = x) (replicate n x @ y # ys) = replicate n x"
  by (induction n) simp_all

lemma sim_unframe_frame: "sim_unframe (sim_frame a @ t) = Some (a, t)"
proof -
  have "takeWhile (\<lambda>c. c = code_unit_of CHR ''x'')
          (replicate (length a) (code_unit_of CHR ''x'') @ code_unit_of CHR ''|'' # a @ t)
        = replicate (length a) (code_unit_of CHR ''x'')"
    by (rule takeWhile_replicate_stop) simp
  then show ?thesis
    by (simp add: sim_unframe_def sim_frame_def)
qed

lemma sim_json_ok: "json_contract sim_platform"
  by (simp add: json_contract_def sim_platform_def EncryptedContent_json_def
      sim_JSON_stringify_def sim_JSON_parse_def sim_unframe_frame)

lemma sim_b64_not_object: "base64_not_json_object sim_platform"
proof -
  have "sim_JSON_parse (sim_encodeBase64 b) = Inl (Error ''SyntaxError'')" for b
    by (cases b) (simp_all add: sim_JSON_parse_def sim_encodeBase64_def)
  then show ?thesis
    by (simp add: base64_not_json_object_def sim_platform_def)
qed

lemma alice_is_keypair: "is_keypair sim_platform alice_keys"
  by (simp add: sim_is_keypair alice_keys_def)

lemma bob_is_keypair: "is_keypair sim_platform bob_keys"
  by (simp add: sim_is_keypair bob_keys_def)

lemma pin_123456_accepted: "\<not> pin_rejected (str ''123456'')"
  by (simp add: pin_rejected_def digits_only_def)

section \<open>Single envelopes and the envelope parser\<close>

lemma base64_nonempty:
  assumes "base64_contract L" and "b \<noteq> []"
  shows "encodeBase64 L b \<noteq> []"
proof
  assume empty: "encodeBase64 L b = []"
  have inv: "decodeBase64 L (JString (encodeBase64 L x)) = Inr x" for x
    using assms(1) by (simp add: base64_contract_def)
  have nil: "encodeBase64 L [] = []"
    using assms(1) by (simp add: base64_contract_def)
  have "decodeBase64 L (JString []) = Inr b"
    using inv [of b] by (simp add: empty)
  moreover have "decodeBase64 L (JString []) = Inr []"
    using inv [of "[]"] by (simp add: nil)
  ultimately have "b = []" by simp
  with assms(2) show False by simp
qed

lemma encryptMessage_decryptMessage:
  assumes rb: "randomBytes_contract L" and bx: "box_contract L"
    and b64: "base64_contract L" and u8: "utf8_contract L"
    and A: "is_keypair L A" and B: "is_keypair L B" and wf: "well_formed P"
  shows "\<exists>bs e'.
           TweetNaCl_encryptMessage L P (publicKey B) (secretKey A) e
             = (Inr (encodeBase64 L bs), e')
         \<and> encodeBase64 L bs \<noteq> []
         \<and> TweetNaCl_decryptMessage L (JString (encodeBase64 L bs)) (publicKey A) (secretKey B)
             = Some P"
proof -
  from rb obtain nonce e1 where nonce: "randomBytes L box_nonceLength e = (Inr nonce, e1)"
      "length nonce = box_nonceLength"
    unfolding randomBytes_contract_def by blast
  from u8 wf obtain m where m: "decodeUTF8 L P = Inr m" "encodeUTF8 L m = Inr P"
    unfolding utf8_contract_def by blast
  from bx nonce(2) A B obtain c where c: "box L m nonce (publicKey B) (secretKey A) = Inr (Some c)"
      "box_open L c nonce (publicKey A) (secretKey B) = Inr (Some m)"
    unfolding box_contract_def by blast
  have enc: "TweetNaCl_encryptMessage L P (publicKey B) (secretKey A) e
               = (Inr (encodeBase64 L (nonce @ c)), e1)"
    unfolding TweetNaCl_encryptMessage_def
    by (simp add: await_def settle_def resolve_def nonce(1) m(1) c(1))
  have "nonce @ c \<noteq> []"
    using nonce(2) by (auto simp add: box_nonceLength_def)
  then have ne: "encodeBase64 L (nonce @ c) \<noteq> []"
    by (rule base64_nonempty [OF b64])
  have dec0: "decodeBase64 L (JString (encodeBase64 L (nonce @ c))) = Inr (nonce @ c)"
    using b64 unfolding base64_contract_def by blast
  have dec: "TweetNaCl_decryptMessage L (JString (encodeBase64 L (nonce @ c)))
               (publicKey A) (secretKey B) = Some P"
    unfolding TweetNaCl_decryptMessage_def
    using nonce(2) by (simp add: dec0 c(2) m(2))
  show ?thesis
    using enc ne dec by blast
qed

lemma encryptMessage_ill_formed:
  assumes rb: "randomBytes_contract L" and u8: "utf8_contract L" and ill: "\<not> well_formed P"
  shows "\<exists>msg e'. TweetNaCl_encryptMessage L P recipientPublicKey senderSecretKey e
           = (Inl (URIError msg), e')"
proof -
  from rb obtain nonce e1 where nonce: "randomBytes L box_nonceLength e = (Inr nonce, e1)"
    unfolding randomBytes_contract_def by blast
  from u8 ill obtain msg where msg: "decodeUTF8 L P = Inl (URIError msg)"
    unfolding utf8_contract_def by blast
  have "TweetNaCl_encryptMessage L P recipientPublicKey senderSecretKey e
          = (Inl (URIError msg), e1)"
    unfolding TweetNaCl_encryptMessage_def
    by (simp add: await_def settle_def reject_def nonce msg)
  then show ?thesis by blast
qed

lemma parse_dual_envelope:
  assumes js: "json_contract L" and "enc_s env \<noteq> []" and "enc_r env \<noteq> []"
  shows "parseEncryptedContent L (JSON_stringify L (EncryptedContent_json env))
           = Some (EncryptedContent_json env)"
proof -
  have "JSON_parse L (JSON_stringify L (EncryptedContent_json env)) = Inr (EncryptedContent_json env)"
    using js unfolding json_contract_def by blast
  then show ?thesis
    using assms(2,3) by (simp add: parseEncryptedContent_def EncryptedContent_json_def)
qed

lemma parse_not_object:
  assumes "case JSON_parse L c of Inr (JObject kvs) \<Rightarrow> False | _ \<Rightarrow> True"
  shows "parseEncryptedContent L c = None"
proof (cases "JSON_parse L c")
  case (Inl e)
  then show ?thesis by (simp add: parseEncryptedContent_def)
next
  case (Inr v)
  with assms show ?thesis
    by (cases v) (simp_all add: parseEncryptedContent_def)
qed

section \<open>Round trips of the envelope codec and of the PIN backup\<close>

text \<open>
  Claim C2, as stated: for every plaintext \<open>P\<close>, encoding with
  \<^verbatim>\<open>createEncryptedContent\<close> and decoding with \<^verbatim>\<open>decryptMessageContent\<close> returns
  \<open>P\<close>. \<^verbatim>\<open>encryptMessage\<close> passes the plaintext to \<^verbatim>\<open>decodeUTF8\<close>, which throws a
  \<^verbatim>\<open>URIError\<close> on a string with a lone surrogate, so for such a plaintext there is
  nothing to decode. Evaluated on the plaintext that is one high surrogate, on a platform
  that obeys the contracts: first on \<^verbatim>\<open>createEncryptedContent\<close> and then on
  \<^verbatim>\<open>sendMessage\<close> of Alice's service in her conversation with Bob.
\<close>

theorem dual_envelope_round_trip_counterexample:
  "randomBytes_contract sim_platform \<and> box_contract sim_platform
   \<and> base64_contract sim_platform \<and> utf8_contract sim_platform
   \<and> json_contract sim_platform
   \<and> is_keypair sim_platform alice_keys \<and> is_keypair sim_platform bob_keys
   \<and> \<not> well_formed lone_surrogate
   \<and> fst (createEncryptedContent (TweetNaClEncryption sim_platform) lone_surrogate
             (secretKey alice_keys) (publicKey alice_keys) (publicKey bob_keys) (str ''bob'') 0)
       = Inl (URIError ''URI malformed'')
   \<and> fst (MessagingService_sendMessage sim_platform (str ''dm'') unsendable alice_loaded)
       = Inl (URIError ''URI malformed'')"
proof -
  have encrypt: "TweetNaCl_encryptMessage sim_platform lone_surrogate pk sk e
                   = (Inl (URIError ''URI malformed''), Suc e)" for pk sk e
    by (simp add: TweetNaCl_encryptMessage_def await_def settle_def reject_def
        sim_platform_def sim_randomBytes_def sim_decodeUTF8_def lone_surrogate_ill_formed)
  have create: "fst (createEncryptedContent (TweetNaClEncryption sim_platform) lone_surrogate
             (secretKey alice_keys) (publicKey alice_keys) (publicKey bob_keys) (str ''bob'') 0)
       = Inl (URIError ''URI malformed'')"
    by (simp add: createEncryptedContent_def TweetNaClEncryption_def await_def encrypt)
  have send: "fst (MessagingService_sendMessage sim_platform (str ''dm'') unsendable alice_loaded)
       = Inl (URIError ''URI malformed'')"
    by (simp add: MessagingService_sendMessage_def MessagingService_getConversation_def
        MessagingService_getPublicKey_def createEncryptedContent_def this_encryption_def
        alice_loaded_def service_for_alice_def createMessagingService_def setCurrentUser_def
        remote_with_conversations_def dm_conversation_def MemoryMessagingAdapter_def
        Memory_getConversation_def Memory_empty_def active_user_def unsendable_def
        TweetNaClEncryption_def encrypt await_def resolve_def call_adapter_def
        call_encryption_def Let_def)
  show ?thesis
    by (intro conjI)
      (rule sim_randomBytes_ok sim_box_ok sim_base64_ok sim_utf8_ok sim_json_ok
        alice_is_keypair bob_is_keypair lone_surrogate_ill_formed create send)+
qed

text \<open>
  Claim C2, amended. For every well-formed plaintext \<open>P\<close> (one with no lone
  surrogate), sender key pair \<open>S\<close> and recipient key pair \<open>R\<close>,
  \<^verbatim>\<open>createEncryptedContent\<close> returns an envelope, and \<^verbatim>\<open>decryptMessageContent\<close>
  applied to its JSON text returns exactly \<open>P\<close> both for the sender
  (\<^verbatim>\<open>senderId == currentUserId\<close>, with the secret key of \<open>S\<close>) and for the recipient
  (\<^verbatim>\<open>senderId != currentUserId\<close>, with the secret key of \<open>R\<close>). For a plaintext with a
  lone surrogate \<^verbatim>\<open>createEncryptedContent\<close> throws the \<^verbatim>\<open>URIError\<close> of
  \<^verbatim>\<open>decodeUTF8\<close>. The hypotheses are the contracts of the libraries and that \<open>S\<close> and
  \<open>R\<close> are key pairs.
\<close>

theorem dual_envelope_round_trip:
  assumes rb: "randomBytes_contract L" and bx: "box_contract L"
    and b64: "base64_contract L" and u8: "utf8_contract L" and js: "json_contract L"
    and S: "is_keypair L S" and R: "is_keypair L R"
  shows "(well_formed P \<longrightarrow>
          (\<exists>env e'.
             createEncryptedContent (TweetNaClEncryption L) P (secretKey S) (publicKey S)
               (publicKey R) recipientId e = (Inr env, e')
           \<and> (\<forall>userId e''.
                 decryptMessageContent L (TweetNaClEncryption L)
                   (JSON_stringify L (EncryptedContent_json env)) userId userId
                   (publicKey S) (secretKey S) e'' = (Inr (Some P), e''))
           \<and> (\<forall>senderId' userId e''. senderId' \<noteq> userId \<longrightarrow>
                 decryptMessageContent L (TweetNaClEncryption L)
                   (JSON_stringify L (EncryptedContent_json env)) senderId' userId
                   (publicKey S) (secretKey R) e'' = (Inr (Some P), e''))))
       \<and> (\<not> well_formed P \<longrightarrow>
          (\<exists>msg e'.
             createEncryptedContent (TweetNaClEncryption L) P (secretKey S) (publicKey S)
               (publicKey R) recipientId e = (Inl (URIError msg), e')))"
proof (intro conjI impI)
  assume wf: "well_formed P"
  from encryptMessage_decryptMessage [OF rb bx b64 u8 S R wf, of e]
  obtain br e1 where r: "TweetNaCl_encryptMessage L P (publicKey R) (secretKey S) e
        = (Inr (encodeBase64 L br), e1)" "encodeBase64 L br \<noteq> []"
      "TweetNaCl_decryptMessage L (JString (encodeBase64 L br)) (publicKey S) (secretKey R) = Some P"
    by blast
  from encryptMessage_decryptMessage [OF rb bx b64 u8 S S wf, of e1]
  obtain bs e2 where s: "TweetNaCl_encryptMessage L P (publicKey S) (secretKey S) e1
        = (Inr (encodeBase64 L bs), e2)" "encodeBase64 L bs \<noteq> []"
      "TweetNaCl_decryptMessage L (JString (encodeBase64 L bs)) (publicKey S) (secretKey S) = Some P"
    by blast
  let ?env = "\<lparr> enc_s = encodeBase64 L bs, enc_r = encodeBase64 L br,
                 enc_recipientId = recipientId \<rparr>"
  have create: "createEncryptedContent (TweetNaClEncryption L) P (secretKey S) (publicKey S)
             (publicKey R) recipientId e = (Inr ?env, e2)"
    by (simp add: createEncryptedContent_def TweetNaClEncryption_def await_def resolve_def r(1) s(1))
  have parse: "parseEncryptedContent L (JSON_stringify L (EncryptedContent_json ?env))
                 = Some (EncryptedContent_json ?env)"
    using s(2) r(2) by (simp add: parse_dual_envelope [OF js])
  have as_sender: "decryptMessageContent L (TweetNaClEncryption L)
                 (JSON_stringify L (EncryptedContent_json ?env)) userId userId
                 (publicKey S) (secretKey S) e'' = (Inr (Some P), e'')" for userId e''
    unfolding decryptMessageContent_def parse
    by (simp add: EncryptedContent_json_def TweetNaClEncryption_def await_def settle_def
        resolve_def s(3))
  have as_recipient: "decryptMessageContent L (TweetNaClEncryption L)
                 (JSON_stringify L (EncryptedContent_json ?env)) senderId' userId
                 (publicKey S) (secretKey R) e'' = (Inr (Some P), e'')"
    if "senderId' \<noteq> userId" for senderId' userId e''
    using that unfolding decryptMessageContent_def parse
    by (simp add: EncryptedContent_json_def TweetNaClEncryption_def await_def settle_def
        resolve_def r(3))
  show "\<exists>env e'.
             createEncryptedContent (TweetNaClEncryption L) P (secretKey S) (publicKey S)
               (publicKey R) recipientId e = (Inr env, e')
           \<and> (\<forall>userId e''.
                 decryptMessageContent L (TweetNaClEncryption L)
                   (JSON_stringify L (EncryptedContent_json env)) userId userId
                   (publicKey S) (secretKey S) e'' = (Inr (Some P), e''))
           \<and> (\<forall>senderId' userId e''. senderId' \<noteq> userId \<longrightarrow>
                 decryptMessageContent L (TweetNaClEncryption L)
                   (JSON_stringify L (EncryptedContent_json env)) senderId' userId
                   (publicKey S) (secretKey R) e'' = (Inr (Some P), e''))"
    using create as_sender as_recipient by blast
next
  assume ill: "\<not> well_formed P"
  from encryptMessage_ill_formed [OF rb u8 ill, of "publicKey R" "secretKey S" e]
  obtain msg e1 where "TweetNaCl_encryptMessage L P (publicKey R) (secretKey S) e
        = (Inl (URIError msg), e1)"
    by blast
  then have "createEncryptedContent (TweetNaClEncryption L) P (secretKey S) (publicKey S)
               (publicKey R) recipientId e = (Inl (URIError msg), e1)"
    by (simp add: createEncryptedContent_def TweetNaClEncryption_def await_def)
  then show "\<exists>msg e'.
             createEncryptedContent (TweetNaClEncryption L) P (secretKey S) (publicKey S)
               (publicKey R) recipientId e = (Inl (URIError msg), e')"
    by blast
qed

theorem dual_envelope_round_trip_witness:
  "randomBytes_contract sim_platform \<and> box_contract sim_platform
   \<and> base64_contract sim_platform \<and> utf8_contract sim_platform
   \<and> json_contract sim_platform
   \<and> is_keypair sim_platform alice_keys \<and> is_keypair sim_platform bob_keys
   \<and> well_formed (str ''hello'')
   \<and> (\<exists>env e'.
         createEncryptedContent (TweetNaClEncryption sim_platform) (str ''hello'')
           (secretKey alice_keys) (publicKey alice_keys) (publicKey bob_keys) (str ''bob'') 0
           = (Inr env, e')
       \<and> decryptMessageContent sim_platform (TweetNaClEncryption sim_platform)
           (JSON_stringify sim_platform (EncryptedContent_json env)) (str ''alice'') (str ''alice'')
           (publicKey alice_keys) (secretKey alice_keys) e' = (Inr (Some (str ''hello'')), e')
       \<and> decryptMessageContent sim_platform (TweetNaClEncryption sim_platform)
           (JSON_stringify sim_platform (EncryptedContent_json env)) (str ''alice'') (str ''bob'')
           (publicKey alice_keys) (secretKey bob_keys) e' = (Inr (Some (str ''hello'')), e'))
   \<and> \<not> well_formed lone_surrogate
   \<and> (\<exists>msg e'.
         createEncryptedContent (TweetNaClEncryption sim_platform) lone_surrogate
           (secretKey alice_keys) (publicKey alice_keys) (publicKey bob_keys) (str ''bob'') 0
           = (Inl (URIError msg), e'))"
proof -
  have ne: "str ''alice'' \<noteq> str ''bob''" by simp
  note round = dual_envelope_round_trip [OF sim_randomBytes_ok sim_box_ok sim_base64_ok
      sim_utf8_ok sim_json_ok alice_is_keypair bob_is_keypair]
  from round [of "str ''hello''" "str ''bob''" 0, THEN conjunct1, rule_format, OF well_formed_str]
  obtain env e' where h:
    "createEncryptedContent (TweetNaClEncryption sim_platform) (str ''hello'')
       (secretKey alice_keys) (publicKey alice_keys) (publicKey bob_keys) (str ''bob'') 0
       = (Inr env, e')
     \<and> (\<forall>userId e''. decryptMessageContent sim_platform (TweetNaClEncryption sim_platform)
           (JSON_stringify sim_platform (EncryptedContent_json env)) userId userId
           (publicKey alice_keys) (secretKey alice_keys) e'' = (Inr (Some (str ''hello'')), e''))
     \<and> (\<forall>senderId' userId e''. senderId' \<noteq> userId \<longrightarrow>
           decryptMessageContent sim_platform (TweetNaClEncryption sim_platform)
             (JSON_stringify sim_platform (EncryptedContent_json env)) senderId' userId
             (publicKey alice_keys) (secretKey bob_keys) e'' = (Inr (Some (str ''hello'')), e''))"
    by (elim exE) (rule that)
  note created = h [THEN conjunct1]
  note as_sender = h [THEN conjunct2, THEN conjunct1, rule_format, of "str ''alice''" e']
  note as_recipient = h [THEN conjunct2, THEN conjunct2, rule_format, OF ne, of e']
  have good: "\<exists>env e'.
         createEncryptedContent (TweetNaClEncryption sim_platform) (str ''hello'')
           (secretKey alice_keys) (publicKey alice_keys) (publicKey bob_keys) (str ''bob'') 0
           = (Inr env, e')
       \<and> decryptMessageContent sim_platform (TweetNaClEncryption sim_platform)
           (JSON_stringify sim_platform (EncryptedContent_json env)) (str ''alice'') (str ''alice'')
           (publicKey alice_keys) (secretKey alice_keys) e' = (Inr (Some (str ''hello'')), e')
       \<and> decryptMessageContent sim_platform (TweetNaClEncryption sim_platform)
           (JSON_stringify sim_platform (EncryptedContent_json env)) (str ''alice'') (str ''bob'')
           (publicKey alice_keys) (secretKey bob_keys) e' = (Inr (Some (str ''hello'')), e')"
    by (rule exI [of _ env], rule exI [of _ e'], intro conjI)
      (rule created, rule as_sender, rule as_recipient)
  note bad = round [of lone_surrogate "str ''bob''" 0, THEN conjunct2, rule_format,
      OF lone_surrogate_ill_formed]
  show ?thesis
    by (intro conjI)
      (rule sim_randomBytes_ok sim_box_ok sim_base64_ok sim_utf8_ok sim_json_ok
        alice_is_keypair bob_is_keypair well_formed_str lone_surrogate_ill_formed good bad)+
qed

text \<open>
  Claim C3 (PIN backup round trip). For every secret key (of 32 bytes or of any other
  length) and every PIN that passes the six-digit check,
  \<^verbatim>\<open>encryptPrivateKeyWithPin\<close> returns a blob and \<^verbatim>\<open>decryptPrivateKeyWithPin\<close> of that
  blob under the same PIN returns exactly the secret key: the salt and the nonce are
  read back from the blob, and the derived key is a function of the PIN and the salt.
\<close>

theorem pin_backup_round_trip:
  assumes rb: "randomBytes_contract L" and kdf: "pbkdf2_contract L"
    and sb: "secretbox_contract L" and b64: "base64_contract L"
    and pin: "\<not> pin_rejected pin"
  shows "\<exists>blob e'.
           encryptPrivateKeyWithPin (TweetNaClEncryption L) sk pin e = (Inr blob, e')
         \<and> (\<forall>e''. decryptPrivateKeyWithPin (TweetNaClEncryption L) blob pin e''
               = (Inr (Some sk), e''))"
proof -
  from rb obtain salt e1 where salt: "randomBytes L 16 e = (Inr salt, e1)" "length salt = 16"
    unfolding randomBytes_contract_def by blast
  from kdf pin salt(2) obtain k where k: "deriveKeyFromPin L pin salt = Inr k" "length k = 32"
    unfolding pbkdf2_contract_def deriveKeyFromPin_def by (metis)
  from rb obtain nonce e2 where nonce: "randomBytes L secretbox_nonceLength e1 = (Inr nonce, e2)"
      "length nonce = secretbox_nonceLength"
    unfolding randomBytes_contract_def by blast
  from sb nonce(2) k(2) obtain c where c: "secretbox L sk nonce k = Inr (Some c)"
      "secretbox_open L c nonce k = Inr (Some sk)"
    unfolding secretbox_contract_def by blast
  let ?blob = "encodeBase64 L (salt @ nonce @ c)"
  have enc: "TweetNaCl_encryptPrivateKeyWithPin L sk pin e = (Inr ?blob, e2)"
    unfolding TweetNaCl_encryptPrivateKeyWithPin_def
    by (simp add: await_def settle_def salt(1) k(1) nonce(1) c(1) resolve_def)
  have dec0: "decodeBase64 L (JString ?blob) = Inr (salt @ nonce @ c)"
    using b64 unfolding base64_contract_def by blast
  have dec: "TweetNaCl_decryptPrivateKeyWithPin L ?blob pin = Some sk"
    unfolding TweetNaCl_decryptPrivateKeyWithPin_def
    using salt(2) nonce(2) by (simp add: dec0 k(1) c(2))
  show ?thesis
    using enc dec by (simp add: TweetNaClEncryption_def resolve_def)
qed

theorem pin_backup_round_trip_witness:
  "randomBytes_contract sim_platform \<and> pbkdf2_contract sim_platform
   \<and> secretbox_contract sim_platform \<and> base64_contract sim_platform
   \<and> \<not> pin_rejected (str ''123456'')
   \<and> (\<exists>blob e'.
         encryptPrivateKeyWithPin (TweetNaClEncryption sim_platform) (secretKey alice_keys)
           (str ''123456'') 0 = (Inr blob, e')
       \<and> decryptPrivateKeyWithPin (TweetNaClEncryption sim_platform) blob (str ''123456'') e'
           = (Inr (Some (secretKey alice_keys)), e'))"
  using pin_backup_round_trip [OF sim_randomBytes_ok sim_pbkdf2_ok sim_secretbox_ok
      sim_base64_ok pin_123456_accepted, of "secretKey alice_keys" 0]
    sim_randomBytes_ok sim_pbkdf2_ok sim_secretbox_ok sim_base64_ok pin_123456_accepted
  by blast

text \<open>
  Claim C4 (legacy fallback). For every content string on which
  \<^verbatim>\<open>parseEncryptedContent\<close> returns \<^verbatim>\<open>null\<close>, \<^verbatim>\<open>decryptMessageContent\<close> is
  \<^verbatim>\<open>decryptMessage\<close> of that string against \<^verbatim>\<open>senderPublicKey\<close> and
  \<^verbatim>\<open>currentUserSecretKey\<close> (first part). In particular, for a well-formed plaintext the
  single-envelope \<^verbatim>\<open>encryptMessage\<close> produces for the recipient \<open>R\<close> a string that does
  not parse as a dual envelope, and the dual decoder returns its plaintext to \<open>R\<close>,
  whatever the two user ids are (second part). And every string that
  \<^verbatim>\<open>encryptMessage\<close> produces, for any plaintext, is such a string (third part; for a
  plaintext with a lone surrogate it throws and produces none).
\<close>

theorem legacy_fallback:
  "(parseEncryptedContent L content' = None \<longrightarrow>
      decryptMessageContent L enc content' senderId' userId senderPublicKey userSecretKey
        = decryptMessage enc (JString content') senderPublicKey userSecretKey)
   \<and> (randomBytes_contract L \<and> box_contract L \<and> base64_contract L \<and> utf8_contract L
        \<and> base64_not_json_object L \<and> is_keypair L S \<and> is_keypair L R \<and> well_formed P \<longrightarrow>
      (\<exists>c e'. encryptMessage (TweetNaClEncryption L) P (publicKey R) (secretKey S) e = (Inr c, e')
         \<and> parseEncryptedContent L c = None
         \<and> (\<forall>sid uid e''.
               decryptMessageContent L (TweetNaClEncryption L) c sid uid
                 (publicKey S) (secretKey R) e'' = (Inr (Some P), e''))))
   \<and> (randomBytes_contract L \<and> box_contract L \<and> base64_contract L \<and> utf8_contract L
        \<and> base64_not_json_object L \<and> is_keypair L S \<and> is_keypair L R \<longrightarrow>
      (\<forall>c e'. encryptMessage (TweetNaClEncryption L) Q (publicKey R) (secretKey S) e = (Inr c, e')
         \<longrightarrow> parseEncryptedContent L c = None
           \<and> (\<forall>sid uid e''.
                 decryptMessageContent L (TweetNaClEncryption L) c sid uid
                   (publicKey S) (secretKey R) e'' = (Inr (Some Q), e''))))"
proof -
  have produced: "\<exists>c e'. encryptMessage (TweetNaClEncryption L) P' (publicKey R) (secretKey S) e
                            = (Inr c, e')
         \<and> parseEncryptedContent L c = None
         \<and> (\<forall>sid uid e''.
               decryptMessageContent L (TweetNaClEncryption L) c sid uid
                 (publicKey S) (secretKey R) e'' = (Inr (Some P'), e''))"
    if h: "randomBytes_contract L \<and> box_contract L \<and> base64_contract L \<and> utf8_contract L
        \<and> base64_not_json_object L \<and> is_keypair L S \<and> is_keypair L R" and wf: "well_formed P'"
    for P'
  proof -
    from h wf obtain bs e1 where c: "TweetNaCl_encryptMessage L P' (publicKey R) (secretKey S) e
          = (Inr (encodeBase64 L bs), e1)"
        "TweetNaCl_decryptMessage L (JString (encodeBase64 L bs)) (publicKey S) (secretKey R)
          = Some P'"
      using encryptMessage_decryptMessage [of L S R P' e] by blast
    have "case JSON_parse L (encodeBase64 L bs) of Inr (JObject kvs) \<Rightarrow> False | _ \<Rightarrow> True"
      using h unfolding base64_not_json_object_def by blast
    then have parse: "parseEncryptedContent L (encodeBase64 L bs) = None"
      by (rule parse_not_object)
    have "decryptMessageContent L (TweetNaClEncryption L) (encodeBase64 L bs) sid uid
            (publicKey S) (secretKey R) e'' = (Inr (Some P'), e'')" for sid uid e''
      by (simp add: decryptMessageContent_def parse TweetNaClEncryption_def resolve_def c(2))
    with c(1) parse show ?thesis
      by (simp add: TweetNaClEncryption_def)
  qed
  have first: "parseEncryptedContent L content' = None \<longrightarrow>
      decryptMessageContent L enc content' senderId' userId senderPublicKey userSecretKey
        = decryptMessage enc (JString content') senderPublicKey userSecretKey"
    by (simp add: decryptMessageContent_def)
  have second: "randomBytes_contract L \<and> box_contract L \<and> base64_contract L \<and> utf8_contract L
        \<and> base64_not_json_object L \<and> is_keypair L S \<and> is_keypair L R \<and> well_formed P \<longrightarrow>
      (\<exists>c e'. encryptMessage (TweetNaClEncryption L) P (publicKey R) (secretKey S) e = (Inr c, e')
         \<and> parseEncryptedContent L c = None
         \<and> (\<forall>sid uid e''.
               decryptMessageContent L (TweetNaClEncryption L) c sid uid
                 (publicKey S) (secretKey R) e'' = (Inr (Some P), e'')))"
    using produced [of P] by blast
  have third: "randomBytes_contract L \<and> box_contract L \<and> base64_contract L \<and> utf8_contract L
        \<and> base64_not_json_object L \<and> is_keypair L S \<and> is_keypair L R \<longrightarrow>
      (\<forall>c e'. encryptMessage (TweetNaClEncryption L) Q (publicKey R) (secretKey S) e = (Inr c, e')
         \<longrightarrow> parseEncryptedContent L c = None
           \<and> (\<forall>sid uid e''.
                 decryptMessageContent L (TweetNaClEncryption L) c sid uid
                   (publicKey S) (secretKey R) e'' = (Inr (Some Q), e'')))"
  proof (intro impI allI)
    fix c e'
    assume h: "randomBytes_contract L \<and> box_contract L \<and> base64_contract L \<and> utf8_contract L
        \<and> base64_not_json_object L \<and> is_keypair L S \<and> is_keypair L R"
      and made: "encryptMessage (TweetNaClEncryption L) Q (publicKey R) (secretKey S) e
                   = (Inr c, e')"
    have wf: "well_formed Q"
    proof (rule ccontr)
      assume "\<not> well_formed Q"
      with h obtain msg e1 where
        "TweetNaCl_encryptMessage L Q (publicKey R) (secretKey S) e = (Inl (URIError msg), e1)"
        using encryptMessage_ill_formed [of L Q "publicKey R" "secretKey S" e] by blast
      with made show False
        by (simp add: TweetNaClEncryption_def)
    qed
    from produced [OF h wf] made
    show "parseEncryptedContent L c = None
           \<and> (\<forall>sid uid e''.
                 decryptMessageContent L (TweetNaClEncryption L) c sid uid
                   (publicKey S) (secretKey R) e'' = (Inr (Some Q), e''))"
      by auto
  qed
  from first second third show ?thesis
    by (intro conjI)
qed

theorem legacy_fallback_witness:
  "parseEncryptedContent sim_platform (str ''AB'') = None
   \<and> decryptMessageContent sim_platform (TweetNaClEncryption sim_platform) (str ''AB'')
         (str ''alice'') (str ''bob'') (publicKey alice_keys) (secretKey bob_keys) (0::nat)
       = decryptMessage (TweetNaClEncryption sim_platform) (JString (str ''AB''))
           (publicKey alice_keys) (secretKey bob_keys) 0
   \<and> randomBytes_contract sim_platform \<and> box_contract sim_platform
   \<and> base64_contract sim_platform \<and> utf8_contract sim_platform
   \<and> base64_not_json_object sim_platform
   \<and> is_keypair sim_platform alice_keys \<and> is_keypair sim_platform bob_keys
   \<and> well_formed (str ''hello'')
   \<and> (\<exists>c e'.
         encryptMessage (TweetNaClEncryption sim_platform) (str ''hello'') (publicKey bob_keys)
           (secretKey alice_keys) 0 = (Inr c, e')
       \<and> parseEncryptedContent sim_platform c = None
       \<and> decryptMessageContent sim_platform (TweetNaClEncryption sim_platform) c
           (str ''alice'') (str ''bob'') (publicKey alice_keys) (secretKey bob_keys) e'
           = (Inr (Some (str ''hello'')), e'))
   \<and> (\<exists>c e'.
         encryptMessage (TweetNaClEncryption sim_platform) (str ''bye'') (publicKey bob_keys)
           (secretKey alice_keys) 0 = (Inr c, e')
       \<and> parseEncryptedContent sim_platform c = None
       \<and> decryptMessageContent sim_platform (TweetNaClEncryption sim_platform) c
           (str ''bob'') (str ''bob'') (publicKey alice_keys) (secretKey bob_keys) e'
           = (Inr (Some (str ''bye'')), e'))"
proof -
  have parse: "parseEncryptedContent sim_platform (str ''AB'') = None"
    by (simp add: parseEncryptedContent_def sim_platform_def sim_JSON_parse_def str_def)
  note contracts = sim_randomBytes_ok sim_box_ok sim_base64_ok sim_utf8_ok sim_b64_not_object
    alice_is_keypair bob_is_keypair
  have all: "randomBytes_contract sim_platform \<and> box_contract sim_platform
      \<and> base64_contract sim_platform \<and> utf8_contract sim_platform
      \<and> base64_not_json_object sim_platform
      \<and> is_keypair sim_platform alice_keys \<and> is_keypair sim_platform bob_keys"
    by (intro conjI) (rule contracts)+
  have all_wf: "randomBytes_contract sim_platform \<and> box_contract sim_platform
      \<and> base64_contract sim_platform \<and> utf8_contract sim_platform
      \<and> base64_not_json_object sim_platform
      \<and> is_keypair sim_platform alice_keys \<and> is_keypair sim_platform bob_keys
      \<and> well_formed (str ''hello'')"
    using all by simp
  note fb = legacy_fallback [of sim_platform "str ''AB''" "TweetNaClEncryption sim_platform"
      "str ''alice''" "str ''bob''" "publicKey alice_keys" "secretKey bob_keys" alice_keys bob_keys
      "str ''hello''" 0 "str ''bye''"]
  note first = fb [THEN conjunct1, rule_format, OF parse]
  from fb [THEN conjunct2, THEN conjunct1, rule_format, OF all_wf]
  obtain c e' where made:
    "encryptMessage (TweetNaClEncryption sim_platform) (str ''hello'') (publicKey bob_keys)
       (secretKey alice_keys) 0 = (Inr c, e')
     \<and> parseEncryptedContent sim_platform c = None
     \<and> (\<forall>sid uid e''. decryptMessageContent sim_platform (TweetNaClEncryption sim_platform) c
           sid uid (publicKey alice_keys) (secretKey bob_keys) e''
           = (Inr (Some (str ''hello'')), e''))"
    by (elim exE) (rule that)
  have second: "\<exists>c e'.
         encryptMessage (TweetNaClEncryption sim_platform) (str ''hello'') (publicKey bob_keys)
           (secretKey alice_keys) 0 = (Inr c, e')
       \<and> parseEncryptedContent sim_platform c = None
       \<and> decryptMessageContent sim_platform (TweetNaClEncryption sim_platform) c
           (str ''alice'') (str ''bob'') (publicKey alice_keys) (secretKey bob_keys) e'
           = (Inr (Some (str ''hello'')), e')"
    by (rule exI [of _ c], rule exI [of _ e'], intro conjI)
      (rule made [THEN conjunct1], rule made [THEN conjunct2, THEN conjunct1],
       rule made [THEN conjunct2, THEN conjunct2, rule_format])
  from encryptMessage_decryptMessage [OF sim_randomBytes_ok sim_box_ok sim_base64_ok sim_utf8_ok
      alice_is_keypair bob_is_keypair well_formed_str, of "''bye''" 0]
  obtain d e1 where bye:
    "encryptMessage (TweetNaClEncryption sim_platform) (str ''bye'') (publicKey bob_keys)
       (secretKey alice_keys) 0 = (Inr d, e1)"
    by (auto simp add: TweetNaClEncryption_def)
  note decoded = fb [THEN conjunct2, THEN conjunct2, rule_format, OF all bye]
  have third: "\<exists>c e'.
         encryptMessage (TweetNaClEncryption sim_platform) (str ''bye'') (publicKey bob_keys)
           (secretKey alice_keys) 0 = (Inr c, e')
       \<and> parseEncryptedContent sim_platform c = None
       \<and> decryptMessageContent sim_platform (TweetNaClEncryption sim_platform) c
           (str ''bob'') (str ''bob'') (publicKey alice_keys) (secretKey bob_keys) e'
           = (Inr (Some (str ''bye'')), e')"
    by (rule exI [of _ d], rule exI [of _ e1], intro conjI)
      (rule bye, rule decoded [THEN conjunct1], rule decoded [THEN conjunct2, rule_format])
  show ?thesis
    by (intro conjI)
      (rule parse first [THEN fun_cong] contracts well_formed_str second third)+
qed

section \<open>Evaluating the service on the concrete inputs\<close>

lemmas effect_defs = await_def resolve_def reject_def settle_def modify_def
  call_adapter_def call_keyStorage_def call_encryption_def

lemmas memory_defs = MemoryMessagingAdapter_def MemoryKeyStorage_def Memory_empty_def
  Memory_getConversation_def Memory_sendMessage_def Memory_storePublicKey_def
  Memory_getPublicKey_def Memory_storeKeyBackup_def Memory_getKeyBackup_def
  Memory_recordPinAttempt_def

lemmas demo_defs = service_for_alice_def createMessagingService_def setCurrentUser_def
  remote_with_backup_def remote_with_public_key_def local_with_alice_def local_empty_def
  alice_stored_def unreadable_blob_def adapter_without_getKeyBackup_def
  adapter_without_recordPinAttempt_def rate_limited_adapter_def RateLimited_getKeyBackup_def
  remote_with_conversations_def group_conversation_def dm_conversation_def

lemmas observation_defs = active_user_def local_key_present_def remote_backup_present_def
  remote_public_key_present_def

lemma nobody_facts:
  "e2eEnabled nobody" "active_user nobody = None"
  by (simp_all add: nobody_def demo_defs observation_defs)

lemma alice_fresh_facts:
  "e2eEnabled alice_fresh" "active_user alice_fresh = Some (str ''alice'')"
  "local_key_present alice_fresh (str ''alice'') = Inr False"
  "fst (remote_backup_present alice_fresh (str ''alice'')) = Inr False"
  "remote_public_key_present alice_fresh (str ''alice'') = Inr False"
  by (simp_all add: alice_fresh_def demo_defs memory_defs observation_defs)

lemma alice_ready_facts:
  "e2eEnabled alice_ready" "active_user alice_ready = Some (str ''alice'')"
  "local_key_present alice_ready (str ''alice'') = Inr True"
  "fst (remote_backup_present alice_ready (str ''alice'')) = Inr True"
  by (simp_all add: alice_ready_def demo_defs memory_defs observation_defs)

lemma alice_has_backup_facts:
  "e2eEnabled alice_has_backup" "active_user alice_has_backup = Some (str ''alice'')"
  "local_key_present alice_has_backup (str ''alice'') = Inr False"
  "fst (remote_backup_present alice_has_backup (str ''alice'')) = Inr True"
  by (simp_all add: alice_has_backup_def demo_defs memory_defs observation_defs)

lemma alice_needs_regeneration_facts:
  "e2eEnabled alice_needs_regeneration" "active_user alice_needs_regeneration = Some (str ''alice'')"
  "local_key_present alice_needs_regeneration (str ''alice'') = Inr False"
  "fst (remote_backup_present alice_needs_regeneration (str ''alice'')) = Inr False"
  "remote_public_key_present alice_needs_regeneration (str ''alice'') = Inr True"
  by (simp_all add: alice_needs_regeneration_def demo_defs memory_defs observation_defs
      bytesToBase64_def sim_platform_def sim_encodeBase64_def alice_keys_def)

lemma alice_local_only_facts:
  "e2eEnabled alice_local_only" "active_user alice_local_only = Some (str ''alice'')"
  "local_key_present alice_local_only (str ''alice'') = Inr True"
  "getKeyBackup (adapter alice_local_only) \<noteq> None"
  "fst (remote_backup_present alice_local_only (str ''alice'')) = Inr False"
  by (simp_all add: alice_local_only_def demo_defs memory_defs observation_defs)

lemma alice_without_backup_capability_facts:
  "e2eEnabled alice_without_backup_capability"
  "active_user alice_without_backup_capability = Some (str ''alice'')"
  "local_key_present alice_without_backup_capability (str ''alice'') = Inr True"
  "getKeyBackup (adapter alice_without_backup_capability) = None"
  by (simp_all add: alice_without_backup_capability_def demo_defs memory_defs observation_defs)

lemma unreadable_blob_stays_closed:
  "decryptPrivateKeyWithPin (TweetNaClEncryption sim_platform) unreadable_blob (str ''123456'') e
     = (Inr None, e)"
  by (simp add: TweetNaClEncryption_def TweetNaCl_decryptPrivateKeyWithPin_def resolve_def
      unreadable_blob_def sim_platform_def sim_decodeBase64_def deriveKeyFromPin_def
      sim_PBKDF2_def sim_secretbox_open_def secretbox_nonceLength_def Let_def str_def)

lemma e2e_disabled_facts:
  "\<not> e2eEnabled nobody_e2e_disabled" "active_user nobody_e2e_disabled = None"
  "\<not> e2eEnabled alice_e2e_disabled" "active_user alice_e2e_disabled = Some (str ''alice'')"
  by (simp_all add: nobody_e2e_disabled_def alice_e2e_disabled_def demo_defs observation_defs)

section \<open>The status of encryption\<close>

text \<open>
  Claim C1, as stated: for an active user whose Local Key Store holds a key pair, and a
  Key Directory without \<^verbatim>\<open>getKeyBackup\<close>, the status is \<^verbatim>\<open>needs_pin_setup\<close>. The
  source returns \<^verbatim>\<open>ready\<close> there: with local keys and no \<^verbatim>\<open>getKeyBackup\<close> method it
  falls through to \<^verbatim>\<open>return 'ready'\<close>. Evaluated on Alice's service over an adapter
  without the method.
\<close>

theorem status_without_backup_capability_counterexample:
  "e2eEnabled alice_without_backup_capability
   \<and> active_user alice_without_backup_capability = Some (str ''alice'')
   \<and> local_key_present alice_without_backup_capability (str ''alice'') = Inr True
   \<and> getKeyBackup (adapter alice_without_backup_capability) = None
   \<and> fst (getEncryptionStatus alice_without_backup_capability) = Inr ready
   \<and> fst (getEncryptionStatus alice_without_backup_capability) \<noteq> Inr needs_pin_setup"
proof -
  have "fst (getEncryptionStatus alice_without_backup_capability) = Inr ready"
    by (simp add: getEncryptionStatus_def alice_without_backup_capability_def demo_defs
        memory_defs observation_defs effect_defs)
  then show ?thesis
    using alice_without_backup_capability_facts by simp
qed

text \<open>
  Claim C1, amended. With E2E enabled, an active user and a key pair in the Local Key
  Store: when the Key Directory has no \<^verbatim>\<open>getKeyBackup\<close>, the status is \<^verbatim>\<open>ready\<close> and
  the only call made is the one on the key store; when it has the method and reports no
  backup blob (\<^verbatim>\<open>null\<close> or the empty string), the status is \<^verbatim>\<open>needs_pin_setup\<close>.
\<close>

theorem status_without_backup_capability:
  assumes "e2eEnabled this" and "active_user this = Some userId"
    and "local_key_present this userId = Inr True"
  shows "(getKeyBackup (adapter this) = None
            \<longrightarrow> fst (getEncryptionStatus this) = Inr ready
              \<and> calls (snd (getEncryptionStatus this))
                  = calls this @ [KeyStorage_loadKeyPair userId])
       \<and> (getKeyBackup (adapter this) \<noteq> None
            \<and> fst (remote_backup_present this userId) = Inr False
            \<longrightarrow> fst (getEncryptionStatus this) = Inr needs_pin_setup)"
  using assms
  by (auto simp add: getEncryptionStatus_def effect_defs local_key_present_def
      remote_backup_present_def
      split: option.splits prod.splits sum.splits if_splits)

theorem status_without_backup_capability_witness:
  "e2eEnabled alice_without_backup_capability
   \<and> active_user alice_without_backup_capability = Some (str ''alice'')
   \<and> local_key_present alice_without_backup_capability (str ''alice'') = Inr True
   \<and> getKeyBackup (adapter alice_without_backup_capability) = None
   \<and> fst (getEncryptionStatus alice_without_backup_capability) = Inr ready
   \<and> calls (snd (getEncryptionStatus alice_without_backup_capability))
       = calls alice_without_backup_capability @ [KeyStorage_loadKeyPair (str ''alice'')]
   \<and> e2eEnabled alice_local_only
   \<and> active_user alice_local_only = Some (str ''alice'')
   \<and> local_key_present alice_local_only (str ''alice'') = Inr True
   \<and> getKeyBackup (adapter alice_local_only) \<noteq> None
   \<and> fst (remote_backup_present alice_local_only (str ''alice'')) = Inr False
   \<and> fst (getEncryptionStatus alice_local_only) = Inr needs_pin_setup"
  using status_without_backup_capability [OF alice_without_backup_capability_facts(1,2,3)]
    status_without_backup_capability [OF alice_local_only_facts(1,2,3)]
    alice_without_backup_capability_facts alice_local_only_facts
  by simp

text \<open>
  Claim C5 (status resolution follows the state table). The table is the one that
  \<^verbatim>\<open>getEncryptionStatus\<close> applies when E2E encryption is enabled; when it is disabled the
  method returns \<^verbatim>\<open>ready\<close> at once, calls no collaborator and does not look at the
  user (first part). When it is enabled (second part): with no active user the status is
  \<^verbatim>\<open>error\<close> and nothing is called; with an active user, no local key, no remote backup
  and no remote public key give \<^verbatim>\<open>needs_setup\<close>; a local key and a remote backup give
  \<^verbatim>\<open>ready\<close>; no local key and a remote backup give \<^verbatim>\<open>has_backup\<close>; no local key, no
  backup and a remote public key give \<^verbatim>\<open>needs_regeneration\<close>.
\<close>

theorem status_resolution:
  "(\<not> e2eEnabled this \<longrightarrow> getEncryptionStatus this = (Inr ready, this))
   \<and> (e2eEnabled this \<longrightarrow>
        (active_user this = None \<longrightarrow> getEncryptionStatus this = (Inr status_error, this))
      \<and> (\<forall>userId. active_user this = Some userId \<longrightarrow>
            (local_key_present this userId = Inr False
               \<and> fst (remote_backup_present this userId) = Inr False
               \<and> remote_public_key_present this userId = Inr False
               \<longrightarrow> fst (getEncryptionStatus this) = Inr needs_setup)
          \<and> (local_key_present this userId = Inr True
               \<and> fst (remote_backup_present this userId) = Inr True
               \<longrightarrow> fst (getEncryptionStatus this) = Inr ready)
          \<and> (local_key_present this userId = Inr False
               \<and> fst (remote_backup_present this userId) = Inr True
               \<longrightarrow> fst (getEncryptionStatus this) = Inr has_backup)
          \<and> (local_key_present this userId = Inr False
               \<and> fst (remote_backup_present this userId) = Inr False
               \<and> remote_public_key_present this userId = Inr True
               \<longrightarrow> fst (getEncryptionStatus this) = Inr needs_regeneration)))"
proof (intro conjI impI)
  assume "\<not> e2eEnabled this"
  then show "getEncryptionStatus this = (Inr ready, this)"
    by (simp add: getEncryptionStatus_def resolve_def)
next
  assume "e2eEnabled this" and "active_user this = None"
  then show "getEncryptionStatus this = (Inr status_error, this)"
    by (simp add: getEncryptionStatus_def resolve_def)
next
  assume "e2eEnabled this"
  then show "\<forall>userId. active_user this = Some userId \<longrightarrow>
            (local_key_present this userId = Inr False
               \<and> fst (remote_backup_present this userId) = Inr False
               \<and> remote_public_key_present this userId = Inr False
               \<longrightarrow> fst (getEncryptionStatus this) = Inr needs_setup)
          \<and> (local_key_present this userId = Inr True
               \<and> fst (remote_backup_present this userId) = Inr True
               \<longrightarrow> fst (getEncryptionStatus this) = Inr ready)
          \<and> (local_key_present this userId = Inr False
               \<and> fst (remote_backup_present this userId) = Inr True
               \<longrightarrow> fst (getEncryptionStatus this) = Inr has_backup)
          \<and> (local_key_present this userId = Inr False
               \<and> fst (remote_backup_present this userId) = Inr False
               \<and> remote_public_key_present this userId = Inr True
               \<longrightarrow> fst (getEncryptionStatus this) = Inr needs_regeneration)"
    by (auto simp add: getEncryptionStatus_def effect_defs local_key_present_def
        remote_backup_present_def remote_public_key_present_def
        split: option.splits prod.splits sum.splits if_splits)
qed

theorem status_resolution_witness:
  "\<not> e2eEnabled nobody_e2e_disabled \<and> active_user nobody_e2e_disabled = None
   \<and> getEncryptionStatus nobody_e2e_disabled = (Inr ready, nobody_e2e_disabled)
   \<and> \<not> e2eEnabled alice_e2e_disabled \<and> active_user alice_e2e_disabled = Some (str ''alice'')
   \<and> getEncryptionStatus alice_e2e_disabled = (Inr ready, alice_e2e_disabled)
   \<and> e2eEnabled nobody \<and> active_user nobody = None
   \<and> getEncryptionStatus nobody = (Inr status_error, nobody)
   \<and> e2eEnabled alice_fresh \<and> active_user alice_fresh = Some (str ''alice'')
   \<and> local_key_present alice_fresh (str ''alice'') = Inr False
   \<and> fst (remote_backup_present alice_fresh (str ''alice'')) = Inr False
   \<and> remote_public_key_present alice_fresh (str ''alice'') = Inr False
   \<and> fst (getEncryptionStatus alice_fresh) = Inr needs_setup
   \<and> e2eEnabled alice_ready \<and> active_user alice_ready = Some (str ''alice'')
   \<and> local_key_present alice_ready (str ''alice'') = Inr True
   \<and> fst (remote_backup_present alice_ready (str ''alice'')) = Inr True
   \<and> fst (getEncryptionStatus alice_ready) = Inr ready
   \<and> e2eEnabled alice_has_backup \<and> active_user alice_has_backup = Some (str ''alice'')
   \<and> local_key_present alice_has_backup (str ''alice'') = Inr False
   \<and> fst (remote_backup_present alice_has_backup (str ''alice'')) = Inr True
   \<and> fst (getEncryptionStatus alice_has_backup) = Inr has_backup
   \<and> e2eEnabled alice_needs_regeneration
   \<and> active_user alice_needs_regeneration = Some (str ''alice'')
   \<and> local_key_present alice_needs_regeneration (str ''alice'') = Inr False
   \<and> fst (remote_backup_present alice_needs_regeneration (str ''alice'')) = Inr False
   \<and> remote_public_key_present alice_needs_regeneration (str ''alice'') = Inr True
   \<and> fst (getEncryptionStatus alice_needs_regeneration) = Inr needs_regeneration"
  using status_resolution [of nobody_e2e_disabled] status_resolution [of alice_e2e_disabled]
    status_resolution [of nobody] status_resolution [of alice_fresh]
    status_resolution [of alice_ready] status_resolution [of alice_has_backup]
    status_resolution [of alice_needs_regeneration]
    e2e_disabled_facts
    nobody_facts alice_fresh_facts alice_ready_facts alice_has_backup_facts
    alice_needs_regeneration_facts
  by simp

section \<open>Restoring from the backup\<close>

lemma alice_rate_limited_facts:
  "active_user alice_rate_limited = Some (str ''alice'')"
  "getKeyBackup (adapter alice_rate_limited) = Some RateLimited_getKeyBackup"
  "RateLimited_getKeyBackup (str ''alice'') (adapterState alice_rate_limited)
     = (Inr \<lparr> encryptedKey = None, rateLimited = True \<rparr>, remote_with_backup)"
  by (simp_all add: alice_rate_limited_def demo_defs memory_defs observation_defs)

lemma alice_has_backup_directory:
  "getKeyBackup (adapter alice_has_backup) = Some Memory_getKeyBackup"
  "Memory_getKeyBackup (str ''alice'') (adapterState alice_has_backup)
     = (Inr \<lparr> encryptedKey = Some unreadable_blob, rateLimited = False \<rparr>, remote_with_backup)"
  "recordPinAttempt (adapter alice_has_backup) = Some Memory_recordPinAttempt"
  "Memory_recordPinAttempt (str ''alice'') False remote_with_backup = (Inr (), remote_with_backup)"
  "encryption alice_has_backup = TweetNaClEncryption sim_platform"
  "entropy alice_has_backup = 0"
  by (simp_all add: alice_has_backup_def service_for_alice_def createMessagingService_def
      setCurrentUser_def remote_with_backup_def memory_defs)

lemma alice_unreported_facts:
  "active_user alice_unreported = Some (str ''alice'')"
  "getKeyBackup (adapter alice_unreported) = Some Memory_getKeyBackup"
  "Memory_getKeyBackup (str ''alice'') (adapterState alice_unreported)
     = (Inr \<lparr> encryptedKey = Some unreadable_blob, rateLimited = False \<rparr>, remote_with_backup)"
  "recordPinAttempt (adapter alice_unreported) = None"
  "encryption alice_unreported = TweetNaClEncryption sim_platform"
  "entropy alice_unreported = 0"
  by (simp_all add: alice_unreported_def service_for_alice_def createMessagingService_def
      setCurrentUser_def remote_with_backup_def adapter_without_recordPinAttempt_def
      memory_defs active_user_def)

lemma unreadable_blob_nonempty: "unreadable_blob \<noteq> []"
  by (simp add: unreadable_blob_def)

text \<open>
  Claim C6 (rate-limited restore). For every active user and every PIN that passes the
  six-digit check, when \<^verbatim>\<open>getKeyBackup\<close> of the Key Directory answers with
  \<^verbatim>\<open>rateLimited: true\<close>, \<^verbatim>\<open>restoreEncryption\<close> fails with the RateLimited error, and
  the one call it has made is \<^verbatim>\<open>getKeyBackup\<close>: neither \<^verbatim>\<open>decryptPrivateKeyWithPin\<close>
  nor \<^verbatim>\<open>recordPinAttempt\<close> is called, and nothing but the directory's own state has
  changed.
\<close>

theorem rate_limited_restore:
  assumes "active_user this = Some userId" and "\<not> pin_rejected pin"
    and "getKeyBackup (adapter this) = Some fetch"
    and "fetch userId (adapterState this) = (Inr backup, a')"
    and "rateLimited backup"
  shows "restoreEncryption L pin this
           = (Inl RateLimited,
              this\<lparr>adapterState := a', calls := calls this @ [Adapter_getKeyBackup userId]\<rparr>)"
  using assms by (simp add: restoreEncryption_def effect_defs)

theorem rate_limited_restore_witness:
  "active_user alice_rate_limited = Some (str ''alice'')
   \<and> \<not> pin_rejected (str ''123456'')
   \<and> getKeyBackup (adapter alice_rate_limited) = Some RateLimited_getKeyBackup
   \<and> RateLimited_getKeyBackup (str ''alice'') (adapterState alice_rate_limited)
       = (Inr \<lparr> encryptedKey = None, rateLimited = True \<rparr>, remote_with_backup)
   \<and> rateLimited \<lparr> encryptedKey = None, rateLimited = True \<rparr>
   \<and> restoreEncryption sim_platform (str ''123456'') alice_rate_limited
       = (Inl RateLimited,
          alice_rate_limited\<lparr>adapterState := remote_with_backup,
            calls := calls alice_rate_limited @ [Adapter_getKeyBackup (str ''alice'')]\<rparr>)"
proof -
  have limited: "rateLimited \<lparr> encryptedKey = None, rateLimited = True \<rparr>"
    by simp
  from rate_limited_restore [OF alice_rate_limited_facts(1) pin_123456_accepted
      alice_rate_limited_facts(2,3) limited, of sim_platform]
  show ?thesis
    using alice_rate_limited_facts pin_123456_accepted limited by simp
qed

text \<open>
  Claim C7, as stated: whenever the fetched blob exists, the directory is not rate
  limited and \<^verbatim>\<open>decryptPrivateKeyWithPin\<close> returns \<^verbatim>\<open>null\<close>, the failed attempt is
  reported with \<^verbatim>\<open>recordPinAttempt(userId, false)\<close> before IncorrectPin is returned. The
  source reports only \<^verbatim>\<open>if (this.adapter.recordPinAttempt)\<close>; the method is optional
  in \<^verbatim>\<open>MessagingAdapter\<close>. Evaluated on Alice's service over an adapter that has
  \<^verbatim>\<open>getKeyBackup\<close> and lacks \<^verbatim>\<open>recordPinAttempt\<close>: IncorrectPin is returned and no
  attempt has been reported.
\<close>

theorem incorrect_pin_reporting_counterexample:
  "active_user alice_unreported = Some (str ''alice'')
   \<and> \<not> pin_rejected (str ''123456'')
   \<and> Memory_getKeyBackup (str ''alice'') (adapterState alice_unreported)
       = (Inr \<lparr> encryptedKey = Some unreadable_blob, rateLimited = False \<rparr>, remote_with_backup)
   \<and> decryptPrivateKeyWithPin (encryption alice_unreported) unreadable_blob (str ''123456'')
         (entropy alice_unreported) = (Inr None, 0)
   \<and> fst (restoreEncryption sim_platform (str ''123456'') alice_unreported) = Inl IncorrectPin
   \<and> calls (snd (restoreEncryption sim_platform (str ''123456'') alice_unreported))
       = [Adapter_getKeyBackup (str ''alice''),
          Encryption_decryptPrivateKeyWithPin unreadable_blob (str ''123456'')]
   \<and> Adapter_recordPinAttempt (str ''alice'') False
       \<notin> set (calls (snd (restoreEncryption sim_platform (str ''123456'') alice_unreported)))"
proof -
  have run: "restoreEncryption sim_platform (str ''123456'') alice_unreported
               = (Inl IncorrectPin,
                  alice_unreported\<lparr>adapterState := remote_with_backup, entropy := 0,
                    calls := [Adapter_getKeyBackup (str ''alice''),
                              Encryption_decryptPrivateKeyWithPin unreadable_blob (str ''123456'')]\<rparr>)"
    by (simp add: restoreEncryption_def alice_unreported_facts pin_123456_accepted
        unreadable_blob_nonempty unreadable_blob_stays_closed this_encryption_def effect_defs)
      (simp add: alice_unreported_def service_for_alice_def createMessagingService_def
        setCurrentUser_def)
  show ?thesis
    using alice_unreported_facts pin_123456_accepted
    by (simp add: run unreadable_blob_stays_closed)
qed

text \<open>
  Claim C7, amended. For every \<^verbatim>\<open>restoreEncryption\<close> call where the fetched blob exists,
  the directory is not rate limited and \<^verbatim>\<open>decryptPrivateKeyWithPin\<close> returns \<^verbatim>\<open>null\<close>:
  when the Key Directory has \<^verbatim>\<open>recordPinAttempt\<close> and that call completes, the calls
  made are \<^verbatim>\<open>getKeyBackup\<close>, \<^verbatim>\<open>decryptPrivateKeyWithPin\<close> and
  \<^verbatim>\<open>recordPinAttempt(userId, false)\<close>, in this order, and then IncorrectPin is returned;
  when the Key Directory has no \<^verbatim>\<open>recordPinAttempt\<close>, IncorrectPin is returned after
  the first two calls. In both cases the service differs from before in nothing but
  the state of the directory, the state of the encryption and the log of calls; and
  whatever \<^verbatim>\<open>recordPinAttempt\<close> does, the in-memory key pair and the local key store
  are as before.
\<close>

theorem incorrect_pin_reporting:
  assumes "active_user this = Some userId" and "\<not> pin_rejected pin"
    and "getKeyBackup (adapter this) = Some fetch"
    and "fetch userId (adapterState this) = (Inr backup, a1)"
    and "\<not> rateLimited backup"
    and "encryptedKey backup = Some blob" and "blob \<noteq> []"
    and "decryptPrivateKeyWithPin (encryption this) blob pin (entropy this) = (Inr None, e1)"
  shows "(\<forall>report a2.
            recordPinAttempt (adapter this) = Some report \<and> report userId False a1 = (Inr (), a2)
            \<longrightarrow> restoreEncryption L pin this
                  = (Inl IncorrectPin,
                     this\<lparr>adapterState := a2, entropy := e1,
                          calls := calls this @
                            [Adapter_getKeyBackup userId,
                             Encryption_decryptPrivateKeyWithPin blob pin,
                             Adapter_recordPinAttempt userId False]\<rparr>))
       \<and> (recordPinAttempt (adapter this) = None
            \<longrightarrow> restoreEncryption L pin this
                  = (Inl IncorrectPin,
                     this\<lparr>adapterState := a1, entropy := e1,
                          calls := calls this @
                            [Adapter_getKeyBackup userId,
                             Encryption_decryptPrivateKeyWithPin blob pin]\<rparr>))
       \<and> keyPair (snd (restoreEncryption L pin this)) = keyPair this
       \<and> keyStorageState (snd (restoreEncryption L pin this)) = keyStorageState this"
  using assms
  by (auto simp add: restoreEncryption_def effect_defs this_encryption_def
      split: option.splits prod.splits sum.splits)

theorem incorrect_pin_reporting_witness:
  "active_user alice_has_backup = Some (str ''alice'')
   \<and> \<not> pin_rejected (str ''123456'')
   \<and> getKeyBackup (adapter alice_has_backup) = Some Memory_getKeyBackup
   \<and> Memory_getKeyBackup (str ''alice'') (adapterState alice_has_backup)
       = (Inr \<lparr> encryptedKey = Some unreadable_blob, rateLimited = False \<rparr>, remote_with_backup)
   \<and> unreadable_blob \<noteq> []
   \<and> decryptPrivateKeyWithPin (encryption alice_has_backup) unreadable_blob (str ''123456'')
         (entropy alice_has_backup) = (Inr None, 0)
   \<and> recordPinAttempt (adapter alice_has_backup) = Some Memory_recordPinAttempt
   \<and> Memory_recordPinAttempt (str ''alice'') False remote_with_backup = (Inr (), remote_with_backup)
   \<and> restoreEncryption sim_platform (str ''123456'') alice_has_backup
       = (Inl IncorrectPin,
          alice_has_backup\<lparr>adapterState := remote_with_backup, entropy := 0,
            calls := calls alice_has_backup @
              [Adapter_getKeyBackup (str ''alice''),
               Encryption_decryptPrivateKeyWithPin unreadable_blob (str ''123456''),
               Adapter_recordPinAttempt (str ''alice'') False]\<rparr>)
   \<and> recordPinAttempt (adapter alice_unreported) = None
   \<and> restoreEncryption sim_platform (str ''123456'') alice_unreported
       = (Inl IncorrectPin,
          alice_unreported\<lparr>adapterState := remote_with_backup, entropy := 0,
            calls := calls alice_unreported @
              [Adapter_getKeyBackup (str ''alice''),
               Encryption_decryptPrivateKeyWithPin unreadable_blob (str ''123456'')]\<rparr>)"
proof -
  have open1: "decryptPrivateKeyWithPin (encryption alice_has_backup) unreadable_blob (str ''123456'')
         (entropy alice_has_backup) = (Inr None, 0)"
    by (simp add: alice_has_backup_directory unreadable_blob_stays_closed)
  have open2: "decryptPrivateKeyWithPin (encryption alice_unreported) unreadable_blob (str ''123456'')
         (entropy alice_unreported) = (Inr None, 0)"
    by (simp add: alice_unreported_facts unreadable_blob_stays_closed)
  have backup: "\<not> rateLimited \<lparr> encryptedKey = Some unreadable_blob, rateLimited = False \<rparr>"
    "encryptedKey \<lparr> encryptedKey = Some unreadable_blob, rateLimited = False \<rparr>
       = Some unreadable_blob"
    by simp_all
  note reported = incorrect_pin_reporting [OF alice_has_backup_facts(2) pin_123456_accepted
      alice_has_backup_directory(1,2) backup unreadable_blob_nonempty open1,
      of sim_platform, THEN conjunct1, rule_format,
      OF conjI [OF alice_has_backup_directory(3,4)]]
  note unreported = incorrect_pin_reporting [OF alice_unreported_facts(1) pin_123456_accepted
      alice_unreported_facts(2,3) backup unreadable_blob_nonempty open2,
      of sim_platform, THEN conjunct2, THEN conjunct1, rule_format,
      OF alice_unreported_facts(4)]
  show ?thesis
    using reported unreported alice_has_backup_facts(2) pin_123456_accepted
      alice_has_backup_directory(1,2,3,4) alice_unreported_facts(4) unreadable_blob_nonempty
      open1
    by simp
qed

text \<open>
  Claim C8 (PIN validation). For every call of \<^verbatim>\<open>setupEncryption\<close> or
  \<^verbatim>\<open>restoreEncryption\<close> with an active user, a PIN that is not exactly six ASCII
  digits is rejected with the ValidationError and the service is as before: no call on
  a collaborator or on the encryption has been made. The PIN \<^verbatim>\<open>000000\<close> passes the
  check.
\<close>

theorem pin_validation:
  assumes "active_user this = Some userId"
  shows "(\<not> (length pin = 6 \<and> list_all is_digit pin)
            \<longrightarrow> setupEncryption L pin this = (Inl ValidationError, this)
              \<and> restoreEncryption L pin this = (Inl ValidationError, this))
       \<and> \<not> pin_rejected (str ''000000'')"
proof (intro conjI impI)
  assume "\<not> (length pin = 6 \<and> list_all is_digit pin)"
  then have "pin_rejected pin"
    by (auto simp add: pin_rejected_def digits_only_def)
  with assms show "setupEncryption L pin this = (Inl ValidationError, this)"
    and "restoreEncryption L pin this = (Inl ValidationError, this)"
    by (simp_all add: setupEncryption_def restoreEncryption_def reject_def)
next
  show "\<not> pin_rejected (str ''000000'')"
    by (simp add: pin_rejected_def digits_only_def is_digit_def)
qed

lemma setup_with_000000:
  "fst (setupEncryption sim_platform (str ''000000'') alice_fresh) = Inr True"
  by (simp add: setupEncryption_def alice_fresh_def demo_defs memory_defs observation_defs
      effect_defs this_encryption_def TweetNaClEncryption_def TweetNaCl_generateKeyPair_def
      TweetNaCl_encryptPrivateKeyWithPin_def sim_platform_def sim_box_keyPair_def
      sim_randomBytes_def deriveKeyFromPin_def sim_PBKDF2_def sim_secretbox_def
      bytesToBase64_def pin_rejected_def digits_only_def is_digit_def Let_def
      secretbox_nonceLength_def split: prod.splits)

theorem pin_validation_witness:
  "active_user alice_fresh = Some (str ''alice'')
   \<and> \<not> (length (str ''12345'') = 6 \<and> list_all is_digit (str ''12345''))
   \<and> setupEncryption sim_platform (str ''12345'') alice_fresh = (Inl ValidationError, alice_fresh)
   \<and> restoreEncryption sim_platform (str ''12345'') alice_fresh = (Inl ValidationError, alice_fresh)
   \<and> \<not> (length (str ''abcdef'') = 6 \<and> list_all is_digit (str ''abcdef''))
   \<and> setupEncryption sim_platform (str ''abcdef'') alice_fresh = (Inl ValidationError, alice_fresh)
   \<and> restoreEncryption sim_platform (str ''abcdef'') alice_fresh = (Inl ValidationError, alice_fresh)
   \<and> \<not> (length (str ''1234567'') = 6 \<and> list_all is_digit (str ''1234567''))
   \<and> setupEncryption sim_platform (str ''1234567'') alice_fresh = (Inl ValidationError, alice_fresh)
   \<and> restoreEncryption sim_platform (str ''1234567'') alice_fresh = (Inl ValidationError, alice_fresh)
   \<and> \<not> pin_rejected (str ''000000'')
   \<and> fst (setupEncryption sim_platform (str ''000000'') alice_fresh) = Inr True"
proof -
  have short: "\<not> (length (str ''12345'') = 6 \<and> list_all is_digit (str ''12345''))"
    and letters: "\<not> (length (str ''abcdef'') = 6 \<and> list_all is_digit (str ''abcdef''))"
    and long: "\<not> (length (str ''1234567'') = 6 \<and> list_all is_digit (str ''1234567''))"
    by (simp_all add: is_digit_def)
  note v = pin_validation [OF alice_fresh_facts(2), of _ sim_platform]
  from v [of "(str ''12345'')"] v [of "(str ''abcdef'')"] v [of "(str ''1234567'')"] short letters long
  show ?thesis
    using alice_fresh_facts(2) setup_with_000000 by simp
qed

section \<open>Switching the user, and sending\<close>

lemma alice_loaded_facts:
  "active_user alice_loaded = Some (str ''alice'')"
  "e2eEnabled alice_loaded"
  "keyPair alice_loaded = Some alice_keys"
  "publicKeyCache alice_loaded (str ''bob'') = Some (publicKey bob_keys)"
  "currentUserId alice_loaded \<noteq> Some (str ''bob'')"
  "encryption alice_loaded = TweetNaClEncryption sim_platform"
  "entropy alice_loaded = 0"
  "calls alice_loaded = []"
  "getConversation (adapter alice_loaded) (str ''group'') (adapterState alice_loaded)
     = (Inr (Some group_conversation), remote_with_conversations)"
  "getConversation (adapter alice_loaded) (str ''dm'') (adapterState alice_loaded)
     = (Inr (Some dm_conversation), remote_with_conversations)"
  by (simp_all add: alice_loaded_def service_for_alice_def createMessagingService_def
      setCurrentUser_def remote_with_conversations_def memory_defs active_user_def)

lemma alice_not_loaded_facts:
  "active_user alice_not_loaded = Some (str ''alice'')"
  "keyPair alice_not_loaded = None"
  "calls alice_not_loaded = []"
  "e2eEnabled alice_not_loaded"
  by (simp_all add: alice_not_loaded_def service_for_alice_def createMessagingService_def
      setCurrentUser_def active_user_def)

text \<open>
  Claim C9 (a user switch clears the key material). For every state of the service,
  also one with a loaded key pair and a non-empty public-key cache, \<^verbatim>\<open>setCurrentUser\<close>
  with a user id other than the current one leaves the in-memory key pair \<^verbatim>\<open>null\<close> and
  the cache empty. Right after it the service behaves as with no key loaded:
  \<^verbatim>\<open>isEncryptionReady\<close> is true only if E2E is disabled, and \<^verbatim>\<open>decryptMessage\<close> hands a
  message back as it is, with no call on a collaborator.
\<close>

theorem user_switch_clears_key_material:
  assumes "currentUserId this \<noteq> Some userId"
  shows "keyPair (setCurrentUser userId this) = None
       \<and> publicKeyCache (setCurrentUser userId this) = Map.empty
       \<and> currentUserId (setCurrentUser userId this) = Some userId
       \<and> isEncryptionReady (setCurrentUser userId this) = (\<not> e2eEnabled this)
       \<and> MessagingService_decryptMessage L message (setCurrentUser userId this)
           = (Inr message, setCurrentUser userId this)"
  using assms
  by (simp add: setCurrentUser_def isEncryptionReady_def MessagingService_decryptMessage_def
      resolve_def)

theorem user_switch_clears_key_material_witness:
  "keyPair alice_loaded = Some alice_keys
   \<and> publicKeyCache alice_loaded (str ''bob'') = Some (publicKey bob_keys)
   \<and> currentUserId alice_loaded \<noteq> Some (str ''bob'')
   \<and> keyPair (setCurrentUser (str ''bob'') alice_loaded) = None
   \<and> publicKeyCache (setCurrentUser (str ''bob'') alice_loaded) = Map.empty
   \<and> currentUserId (setCurrentUser (str ''bob'') alice_loaded) = Some (str ''bob'')
   \<and> \<not> isEncryptionReady (setCurrentUser (str ''bob'') alice_loaded)
   \<and> MessagingService_decryptMessage sim_platform stored_message
         (setCurrentUser (str ''bob'') alice_loaded)
       = (Inr stored_message, setCurrentUser (str ''bob'') alice_loaded)"
  using user_switch_clears_key_material [OF alice_loaded_facts(5), of sim_platform stored_message]
    alice_loaded_facts(2,3,4,5)
  by simp

lemma memory_sends:
  "sendMessage (adapter alice_loaded) conversationId (str ''alice'') message
       remote_with_conversations
     = Memory_sendMessage conversationId (str ''alice'') message remote_with_conversations"
  "sendMessage (adapter alice_not_loaded) conversationId (str ''alice'') message
       (adapterState alice_not_loaded)
     = Memory_sendMessage conversationId (str ''alice'') message remote_with_conversations"
  by (simp_all add: alice_loaded_def alice_not_loaded_def service_for_alice_def
      createMessagingService_def setCurrentUser_def MemoryMessagingAdapter_def)

lemma decimal_1: "decimal (Suc 0) = ''1''"
  by code_simp

lemma first_message_stored:
  "conversationId = str ''group'' \<or> conversationId = str ''dm'' \<Longrightarrow>
   Memory_sendMessage conversationId (str ''alice'') message remote_with_conversations
     = (Inr (first_message conversationId (content message) (replyTo message)),
        remote_after conversationId (content message) (replyTo message))"
  by (auto simp add: Memory_sendMessage_def remote_with_conversations_def Memory_empty_def
      first_message_def remote_after_def decimal_1 Let_def)

text \<open>
  Claim C10 (group conversations bypass encryption). With an active user, E2E enabled
  and a key pair loaded: for every conversation that the lookup returns and in which the
  number of participants other than the current user is not one, \<^verbatim>\<open>sendMessage\<close> looks
  the conversation up and calls \<^verbatim>\<open>adapter.sendMessage\<close> with the message as given, its
  content the plaintext; the state of the adapter afterwards is the one that this call
  leaves, and the result is the adapter's reply, with the plaintext as \<^verbatim>\<open>content\<close> and
  as \<^verbatim>\<open>contentEncrypted\<close> (first part). With E2E disabled or no key pair the same
  holds without the lookup (second part). Only with exactly one other participant, whose
  public key is found and for whom the two encryptions succeed, is the content that the
  adapter receives, and that \<^verbatim>\<open>contentEncrypted\<close> reports, the JSON text of a dual
  envelope (third part). In each part the error of a failing \<^verbatim>\<open>adapter.sendMessage\<close> is
  the result.
\<close>

theorem group_conversations_bypass_encryption:
  assumes "active_user this = Some userId"
  shows "(e2eEnabled this \<and> keyPair this = Some keys'
            \<and> getConversation (adapter this) conversationId (adapterState this)
                = (Inr (Some conversation), a1)
            \<and> length (filter (\<lambda>p. user_id p \<noteq> userId) (conv_participants conversation)) \<noteq> 1
            \<and> sendMessage (adapter this) conversationId userId message a1 = (reply, a2)
          \<longrightarrow> MessagingService_sendMessage L conversationId message this
                = ((case reply of
                      Inl err \<Rightarrow> Inl err
                    | Inr sent \<Rightarrow> Inr (sent\<lparr> msg_content := content message,
                                            msg_contentEncrypted := Some (content message) \<rparr>)),
                   this\<lparr>adapterState := a2,
                        calls := calls this @ [Adapter_getConversation conversationId,
                                               Adapter_sendMessage conversationId userId message]\<rparr>))
       \<and> (\<not> (e2eEnabled this \<and> keyPair this \<noteq> None)
            \<and> sendMessage (adapter this) conversationId userId message (adapterState this)
                = (reply, a2)
          \<longrightarrow> MessagingService_sendMessage L conversationId message this
                = ((case reply of
                      Inl err \<Rightarrow> Inl err
                    | Inr sent \<Rightarrow> Inr (sent\<lparr> msg_content := content message,
                                            msg_contentEncrypted :=
                                              (if e2eEnabled this then Some (content message)
                                               else None) \<rparr>)),
                   this\<lparr>adapterState := a2,
                        calls := calls this @ [Adapter_sendMessage conversationId userId message]\<rparr>))
       \<and> (e2eEnabled this \<and> keyPair this = Some keys'
            \<and> getConversation (adapter this) conversationId (adapterState this)
                = (Inr (Some conversation), a1)
            \<and> filter (\<lambda>p. user_id p \<noteq> userId) (conv_participants conversation) = [recipient]
            \<and> MessagingService_getPublicKey L (user_id recipient)
                  (this\<lparr>adapterState := a1,
                        calls := calls this @ [Adapter_getConversation conversationId]\<rparr>)
                = (Inr (Some recipientKey), this2)
            \<and> encryptMessage (encryption this) (content message) recipientKey (secretKey keys')
                  (entropy this2) = (Inr forRecipient, e1)
            \<and> encryptMessage (encryption this) (content message) (publicKey keys')
                  (secretKey keys') e1 = (Inr forSender, e2)
            \<and> body = JSON_stringify L (EncryptedContent_json
                        \<lparr> enc_s = forSender, enc_r = forRecipient,
                          enc_recipientId = user_id recipient \<rparr>)
            \<and> sendMessage (adapter this) conversationId userId (message\<lparr>content := body\<rparr>)
                  (adapterState this2) = (reply, a2)
          \<longrightarrow> MessagingService_sendMessage L conversationId message this
                = ((case reply of
                      Inl err \<Rightarrow> Inl err
                    | Inr sent \<Rightarrow> Inr (sent\<lparr> msg_content := content message,
                                            msg_contentEncrypted := Some body \<rparr>)),
                   this2\<lparr>entropy := e2, adapterState := a2,
                         calls := calls this2 @
                           [Encryption_encryptMessage (content message) recipientKey
                              (secretKey keys'),
                            Encryption_encryptMessage (content message) (publicKey keys')
                              (secretKey keys'),
                            Adapter_sendMessage conversationId userId
                              (message\<lparr>content := body\<rparr>)]\<rparr>))"
proof (intro conjI impI)
  assume h: "e2eEnabled this \<and> keyPair this = Some keys'
            \<and> getConversation (adapter this) conversationId (adapterState this)
                = (Inr (Some conversation), a1)
            \<and> length (filter (\<lambda>p. user_id p \<noteq> userId) (conv_participants conversation)) \<noteq> 1
            \<and> sendMessage (adapter this) conversationId userId message a1 = (reply, a2)"
  let ?others = "filter (\<lambda>p. user_id p \<noteq> userId) (conv_participants conversation)"
  let ?result = "((case reply of
                      Inl err \<Rightarrow> Inl err
                    | Inr sent \<Rightarrow> Inr (sent\<lparr> msg_content := content message,
                                            msg_contentEncrypted := Some (content message) \<rparr>)),
                   this\<lparr>adapterState := a2,
                        calls := calls this @ [Adapter_getConversation conversationId,
                                               Adapter_sendMessage conversationId userId message]\<rparr>)"
  from h have "?others = [] \<or> (\<exists>x y zs. ?others = x # y # zs)"
    by (cases ?others; cases "tl ?others") auto
  then show "MessagingService_sendMessage L conversationId message this = ?result"
  proof (elim disjE exE)
    assume "?others = []"
    with h assms show ?thesis
      by (simp add: MessagingService_sendMessage_def MessagingService_getConversation_def
          call_adapter_def effect_defs split: sum.splits)
  next
    fix x y zs
    assume "?others = x # y # zs"
    with h assms show ?thesis
      by (simp add: MessagingService_sendMessage_def MessagingService_getConversation_def
          call_adapter_def effect_defs split: sum.splits)
  qed
next
  assume "\<not> (e2eEnabled this \<and> keyPair this \<noteq> None)
            \<and> sendMessage (adapter this) conversationId userId message (adapterState this)
                = (reply, a2)"
  with assms
  show "MessagingService_sendMessage L conversationId message this
                = ((case reply of
                      Inl err \<Rightarrow> Inl err
                    | Inr sent \<Rightarrow> Inr (sent\<lparr> msg_content := content message,
                                            msg_contentEncrypted :=
                                              (if e2eEnabled this then Some (content message)
                                               else None) \<rparr>)),
                   this\<lparr>adapterState := a2,
                        calls := calls this @ [Adapter_sendMessage conversationId userId message]\<rparr>)"
    by (auto simp add: MessagingService_sendMessage_def call_adapter_def effect_defs
        split: sum.splits option.splits)
next
  assume h: "e2eEnabled this \<and> keyPair this = Some keys'
            \<and> getConversation (adapter this) conversationId (adapterState this)
                = (Inr (Some conversation), a1)
            \<and> filter (\<lambda>p. user_id p \<noteq> userId) (conv_participants conversation) = [recipient]
            \<and> MessagingService_getPublicKey L (user_id recipient)
                  (this\<lparr>adapterState := a1,
                        calls := calls this @ [Adapter_getConversation conversationId]\<rparr>)
                = (Inr (Some recipientKey), this2)
            \<and> encryptMessage (encryption this) (content message) recipientKey (secretKey keys')
                  (entropy this2) = (Inr forRecipient, e1)
            \<and> encryptMessage (encryption this) (content message) (publicKey keys')
                  (secretKey keys') e1 = (Inr forSender, e2)
            \<and> body = JSON_stringify L (EncryptedContent_json
                        \<lparr> enc_s = forSender, enc_r = forRecipient,
                          enc_recipientId = user_id recipient \<rparr>)
            \<and> sendMessage (adapter this) conversationId userId (message\<lparr>content := body\<rparr>)
                  (adapterState this2) = (reply, a2)"
  let ?this1 = "this\<lparr>adapterState := a1,
                        calls := calls this @ [Adapter_getConversation conversationId]\<rparr>"
  let ?env = "\<lparr> enc_s = forSender, enc_r = forRecipient, enc_recipientId = user_id recipient \<rparr>"
  have conv: "MessagingService_getConversation conversationId this
                = (Inr (Some conversation), ?this1)"
    using h by (simp add: MessagingService_getConversation_def call_adapter_def)
  have enc: "createEncryptedContent (this_encryption (encryption this)) (content message)
               (secretKey keys') (publicKey keys') recipientKey (user_id recipient) this2
             = (Inr ?env,
                this2\<lparr>entropy := e2,
                      calls := calls this2 @
                        [Encryption_encryptMessage (content message) recipientKey (secretKey keys'),
                         Encryption_encryptMessage (content message) (publicKey keys')
                           (secretKey keys')]\<rparr>)"
    using h by (simp add: createEncryptedContent_def this_encryption_def effect_defs)
  from h have pk: "MessagingService_getPublicKey L (user_id recipient) ?this1
                     = (Inr (Some recipientKey), this2)"
    by simp
  from h have body: "body = JSON_stringify L (EncryptedContent_json ?env)"
    by blast
  from h assms
  show "MessagingService_sendMessage L conversationId message this
                = ((case reply of
                      Inl err \<Rightarrow> Inl err
                    | Inr sent \<Rightarrow> Inr (sent\<lparr> msg_content := content message,
                                            msg_contentEncrypted := Some body \<rparr>)),
                   this2\<lparr>entropy := e2, adapterState := a2,
                         calls := calls this2 @
                           [Encryption_encryptMessage (content message) recipientKey
                              (secretKey keys'),
                            Encryption_encryptMessage (content message) (publicKey keys')
                              (secretKey keys'),
                            Adapter_sendMessage conversationId userId
                              (message\<lparr>content := body\<rparr>)]\<rparr>)"
    unfolding body
    by (simp add: MessagingService_sendMessage_def Let_def await_def resolve_def reject_def
        call_adapter_def conv pk enc split: sum.splits)
qed

theorem group_conversations_bypass_encryption_witness:
  "active_user alice_loaded = Some (str ''alice'')
   \<and> e2eEnabled alice_loaded \<and> keyPair alice_loaded = Some alice_keys
   \<and> getConversation (adapter alice_loaded) (str ''group'') (adapterState alice_loaded)
       = (Inr (Some group_conversation), remote_with_conversations)
   \<and> length (filter (\<lambda>p. user_id p \<noteq> str ''alice'') (conv_participants group_conversation)) \<noteq> 1
   \<and> sendMessage (adapter alice_loaded) (str ''group'') (str ''alice'') hello
         remote_with_conversations
       = (Inr (first_message (str ''group'') (str ''hello'') None),
          remote_after (str ''group'') (str ''hello'') None)
   \<and> MessagingService_sendMessage sim_platform (str ''group'') hello alice_loaded
       = (Inr ((first_message (str ''group'') (str ''hello'') None)
                 \<lparr>msg_contentEncrypted := Some (str ''hello'')\<rparr>),
          alice_loaded\<lparr>adapterState := remote_after (str ''group'') (str ''hello'') None,
                       calls := [Adapter_getConversation (str ''group''),
                                 Adapter_sendMessage (str ''group'') (str ''alice'') hello]\<rparr>)
   \<and> active_user alice_not_loaded = Some (str ''alice'')
   \<and> \<not> (e2eEnabled alice_not_loaded \<and> keyPair alice_not_loaded \<noteq> None)
   \<and> sendMessage (adapter alice_not_loaded) (str ''dm'') (str ''alice'') hello
         (adapterState alice_not_loaded)
       = (Inr (first_message (str ''dm'') (str ''hello'') None),
          remote_after (str ''dm'') (str ''hello'') None)
   \<and> MessagingService_sendMessage sim_platform (str ''dm'') hello alice_not_loaded
       = (Inr ((first_message (str ''dm'') (str ''hello'') None)
                 \<lparr>msg_contentEncrypted := Some (str ''hello'')\<rparr>),
          alice_not_loaded\<lparr>adapterState := remote_after (str ''dm'') (str ''hello'') None,
                           calls := [Adapter_sendMessage (str ''dm'') (str ''alice'') hello]\<rparr>)
   \<and> getConversation (adapter alice_loaded) (str ''dm'') (adapterState alice_loaded)
       = (Inr (Some dm_conversation), remote_with_conversations)
   \<and> filter (\<lambda>p. user_id p \<noteq> str ''alice'') (conv_participants dm_conversation)
       = [\<lparr>user_id = str ''bob''\<rparr>]
   \<and> (\<exists>forRecipient forSender e1 e2 body.
         encryptMessage (encryption alice_loaded) (str ''hello'') (publicKey bob_keys)
           (secretKey alice_keys) 0 = (Inr forRecipient, e1)
       \<and> encryptMessage (encryption alice_loaded) (str ''hello'') (publicKey alice_keys)
           (secretKey alice_keys) e1 = (Inr forSender, e2)
       \<and> body = JSON_stringify sim_platform (EncryptedContent_json
                   \<lparr> enc_s = forSender, enc_r = forRecipient, enc_recipientId = str ''bob'' \<rparr>)
       \<and> MessagingService_sendMessage sim_platform (str ''dm'') hello alice_loaded
           = (Inr ((first_message (str ''dm'') body None)
                     \<lparr>msg_content := str ''hello'', msg_contentEncrypted := Some body\<rparr>),
              alice_loaded\<lparr>entropy := e2,
                           adapterState := remote_after (str ''dm'') body None,
                           calls := [Adapter_getConversation (str ''dm''),
                                     Encryption_encryptMessage (str ''hello'')
                                       (publicKey bob_keys) (secretKey alice_keys),
                                     Encryption_encryptMessage (str ''hello'')
                                       (publicKey alice_keys) (secretKey alice_keys),
                                     Adapter_sendMessage (str ''dm'') (str ''alice'')
                                       (hello\<lparr>content := body\<rparr>)]\<rparr>))"
proof -
  note send = group_conversations_bypass_encryption
  have group: "length (filter (\<lambda>p. user_id p \<noteq> str ''alice'')
                  (conv_participants group_conversation)) \<noteq> 1"
    by (simp add: group_conversation_def)
  have dm: "filter (\<lambda>p. user_id p \<noteq> str ''alice'') (conv_participants dm_conversation)
              = [\<lparr>user_id = str ''bob''\<rparr>]"
    by (simp add: dm_conversation_def)
  have unloaded: "\<not> (e2eEnabled alice_not_loaded \<and> keyPair alice_not_loaded \<noteq> None)"
    by (simp add: alice_not_loaded_facts)
  have to_group: "sendMessage (adapter alice_loaded) (str ''group'') (str ''alice'') hello
         remote_with_conversations
       = (Inr (first_message (str ''group'') (str ''hello'') None),
          remote_after (str ''group'') (str ''hello'') None)"
    by (simp add: memory_sends first_message_stored hello_def)
  have to_dm: "sendMessage (adapter alice_not_loaded) (str ''dm'') (str ''alice'') hello
         (adapterState alice_not_loaded)
       = (Inr (first_message (str ''dm'') (str ''hello'') None),
          remote_after (str ''dm'') (str ''hello'') None)"
    by (simp add: memory_sends first_message_stored hello_def)
  let ?this1 = "alice_loaded\<lparr>adapterState := remote_with_conversations,
                  calls := calls alice_loaded @ [Adapter_getConversation (str ''dm'')]\<rparr>"
  have cached: "MessagingService_getPublicKey sim_platform (user_id \<lparr>user_id = str ''bob''\<rparr>) ?this1
                  = (Inr (Some (publicKey bob_keys)), ?this1)"
    by (simp add: MessagingService_getPublicKey_def alice_loaded_facts resolve_def)
  from encryptMessage_decryptMessage [OF sim_randomBytes_ok sim_box_ok sim_base64_ok sim_utf8_ok
      alice_is_keypair bob_is_keypair well_formed_str, of "''hello''" 0]
  obtain forRecipient e1 where r:
    "encryptMessage (encryption alice_loaded) (content hello) (publicKey bob_keys)
       (secretKey alice_keys) (entropy ?this1) = (Inr forRecipient, e1)"
    by (auto simp add: alice_loaded_facts TweetNaClEncryption_def hello_def)
  from encryptMessage_decryptMessage [OF sim_randomBytes_ok sim_box_ok sim_base64_ok sim_utf8_ok
      alice_is_keypair alice_is_keypair well_formed_str, of "''hello''" e1]
  obtain forSender e2 where s:
    "encryptMessage (encryption alice_loaded) (content hello) (publicKey alice_keys)
       (secretKey alice_keys) e1 = (Inr forSender, e2)"
    by (auto simp add: alice_loaded_facts TweetNaClEncryption_def hello_def)
  define body where "body = JSON_stringify sim_platform (EncryptedContent_json
      \<lparr> enc_s = forSender, enc_r = forRecipient, enc_recipientId = user_id \<lparr>user_id = str ''bob''\<rparr> \<rparr>)"
  have to_bob: "sendMessage (adapter alice_loaded) (str ''dm'') (str ''alice'')
         (hello\<lparr>content := body\<rparr>) (adapterState ?this1)
       = (Inr (first_message (str ''dm'') body None), remote_after (str ''dm'') body None)"
    by (simp add: memory_sends first_message_stored hello_def)
  note plain = send [OF alice_loaded_facts(1), of alice_keys "str ''group''" group_conversation
      remote_with_conversations hello _ _ sim_platform, THEN conjunct1, rule_format,
      OF conjI [OF alice_loaded_facts(2) conjI [OF alice_loaded_facts(3)
        conjI [OF alice_loaded_facts(9) conjI [OF group to_group]]]]]
  note off = send [OF alice_not_loaded_facts(1), of _ "str ''dm''" _ _ hello _ _ sim_platform,
      THEN conjunct2, THEN conjunct1, rule_format, OF conjI [OF unloaded to_dm]]
  note dual = send [OF alice_loaded_facts(1), of alice_keys "str ''dm''" dm_conversation
      remote_with_conversations hello _ _ sim_platform "\<lparr>user_id = str ''bob''\<rparr>"
      "publicKey bob_keys" ?this1 forRecipient e1 forSender e2 body,
      THEN conjunct2, THEN conjunct2, rule_format,
      OF conjI [OF alice_loaded_facts(2) conjI [OF alice_loaded_facts(3)
        conjI [OF alice_loaded_facts(10) conjI [OF dm conjI [OF cached conjI [OF r
          conjI [OF s conjI [OF body_def to_bob]]]]]]]]]
  have third: "\<exists>forRecipient forSender e1 e2 body.
         encryptMessage (encryption alice_loaded) (str ''hello'') (publicKey bob_keys)
           (secretKey alice_keys) 0 = (Inr forRecipient, e1)
       \<and> encryptMessage (encryption alice_loaded) (str ''hello'') (publicKey alice_keys)
           (secretKey alice_keys) e1 = (Inr forSender, e2)
       \<and> body = JSON_stringify sim_platform (EncryptedContent_json
                   \<lparr> enc_s = forSender, enc_r = forRecipient, enc_recipientId = str ''bob'' \<rparr>)
       \<and> MessagingService_sendMessage sim_platform (str ''dm'') hello alice_loaded
           = (Inr ((first_message (str ''dm'') body None)
                     \<lparr>msg_content := str ''hello'', msg_contentEncrypted := Some body\<rparr>),
              alice_loaded\<lparr>entropy := e2,
                           adapterState := remote_after (str ''dm'') body None,
                           calls := [Adapter_getConversation (str ''dm''),
                                     Encryption_encryptMessage (str ''hello'')
                                       (publicKey bob_keys) (secretKey alice_keys),
                                     Encryption_encryptMessage (str ''hello'')
                                       (publicKey alice_keys) (secretKey alice_keys),
                                     Adapter_sendMessage (str ''dm'') (str ''alice'')
                                       (hello\<lparr>content := body\<rparr>)]\<rparr>)"
    using r s dual
    by (intro exI [of _ forRecipient] exI [of _ forSender] exI [of _ e1] exI [of _ e2]
        exI [of _ body])
      (simp add: body_def alice_loaded_facts hello_def)
  have first: "MessagingService_sendMessage sim_platform (str ''group'') hello alice_loaded
       = (Inr ((first_message (str ''group'') (str ''hello'') None)
                 \<lparr>msg_contentEncrypted := Some (str ''hello'')\<rparr>),
          alice_loaded\<lparr>adapterState := remote_after (str ''group'') (str ''hello'') None,
                       calls := [Adapter_getConversation (str ''group''),
                                 Adapter_sendMessage (str ''group'') (str ''alice'') hello]\<rparr>)"
    using plain by (simp add: alice_loaded_facts hello_def first_message_def)
  have second: "MessagingService_sendMessage sim_platform (str ''dm'') hello alice_not_loaded
       = (Inr ((first_message (str ''dm'') (str ''hello'') None)
                 \<lparr>msg_contentEncrypted := Some (str ''hello'')\<rparr>),
          alice_not_loaded\<lparr>adapterState := remote_after (str ''dm'') (str ''hello'') None,
                           calls := [Adapter_sendMessage (str ''dm'') (str ''alice'') hello]\<rparr>)"
    using off by (simp add: alice_not_loaded_facts hello_def first_message_def)
  show ?thesis
    by (intro conjI)
      (rule alice_loaded_facts(1,2,3,9,10) alice_not_loaded_facts(1) group dm unloaded
        to_group to_dm first second third)+
qed

end
